theory Spec2Isabelle
  imports Complex_Main "HOL-Library.Word" "HOL-Library.Monad_Syntax"
begin

unbundle bit_operations_syntax

section \<open>The machine: bytes, words, the simulated heap\<close>

text \<open>
  Both allocators (\<^verbatim>\<open>mm-explicit list/mm.c\<close>, called variant A, and
  \<^verbatim>\<open>mm-segregated list/mm.c\<close>, called variant B) are C programs for a 64-bit
  little-endian target: pointers and \<^verbatim>\<open>size_t\<close> are 64-bit words, \<^verbatim>\<open>unsigned int\<close> is a
  32-bit word and memory is an array of bytes.  The null pointer is the address 0.

  Every operation is a function from the allocator state to an optional result.  The value
  \<open>None\<close> means that the C call does not return: it touches memory outside the region
  that the substrate owns (a segmentation fault in the model) or a loop runs forever.
\<close>

type_synonym addr = "64 word"
type_synonym word32 = "32 word"
type_synonym byte = "8 word"

record heap =
  mem :: "addr \<Rightarrow> byte"
  mem_start_brk :: addr
  mem_brk :: addr
  mem_max_addr :: addr
  heap_listp :: addr
  free_listp :: addr

text \<open>
  Modelled from the spec: the heap substrate \<^verbatim>\<open>mem_sbrk\<close> of \<^verbatim>\<open>memlib.c\<close>, which is not among
  the sources.  It grows the heap by exactly \<open>incr\<close> bytes and returns the address of the
  first new byte, or it refuses and returns \<^verbatim>\<open>(void *)-1\<close>.  The new bytes keep whatever
  the memory held before.
\<close>

definition mem_sbrk :: "addr \<Rightarrow> heap \<Rightarrow> addr \<times> heap" where
  "mem_sbrk incr s =
     (if unat (mem_brk s) + unat incr \<le> unat (mem_max_addr s)
      then (mem_brk s, s\<lparr>mem_brk := mem_brk s + incr\<rparr>)
      else (- 1, s))"

text \<open>
  The substrate obtains its whole region, from \<open>mem_start_brk\<close> up to \<open>mem_max_addr\<close>, when
  it starts, and \<^verbatim>\<open>mem_sbrk\<close> only moves the break inside it.  The macros \<^verbatim>\<open>GET\<close> and \<^verbatim>\<open>PUT\<close>
  are unchecked loads and stores: a word beyond the current break is read and written like
  any other, and the call goes on.  So an access of \<open>n > 0\<close> bytes at \<open>p\<close> returns when it
  lies inside the region, before or behind the break; outside of the region (at the null
  pointer, for one) it does not.
\<close>

definition in_heap :: "heap \<Rightarrow> addr \<Rightarrow> addr \<Rightarrow> bool" where
  "in_heap s p n \<longleftrightarrow>
     mem_start_brk s \<le> p \<and> p \<le> p + (n - 1) \<and> p + (n - 1) < mem_max_addr s"

definition load32 :: "(addr \<Rightarrow> byte) \<Rightarrow> addr \<Rightarrow> word32" where
  "load32 m p =
     ucast (m p) OR push_bit 8 (ucast (m (p + 1))) OR
     push_bit 16 (ucast (m (p + 2))) OR push_bit 24 (ucast (m (p + 3)))"

definition store32 :: "addr \<Rightarrow> word32 \<Rightarrow> (addr \<Rightarrow> byte) \<Rightarrow> addr \<Rightarrow> byte" where
  "store32 p v m =
     m(p := ucast v, p + 1 := ucast (drop_bit 8 v),
       p + 2 := ucast (drop_bit 16 v), p + 3 := ucast (drop_bit 24 v))"

text \<open>
  \<^verbatim>\<open>memcpy\<close> and \<^verbatim>\<open>memset\<close> of the C library, on the simulated heap: \<open>copy_bytes\<close> and
  \<open>fill_bytes\<close> are their effect on the memory, the \<open>n\<close> bytes from \<open>dst\<close> (from \<open>p\<close>) on.
  A length of zero touches nothing.
\<close>

definition copy_bytes :: "addr \<Rightarrow> addr \<Rightarrow> addr \<Rightarrow> (addr \<Rightarrow> byte) \<Rightarrow> addr \<Rightarrow> byte" where
  "copy_bytes dst src n m = (\<lambda>a. if a - dst < n then m (src + (a - dst)) else m a)"

definition fill_bytes :: "addr \<Rightarrow> byte \<Rightarrow> addr \<Rightarrow> (addr \<Rightarrow> byte) \<Rightarrow> addr \<Rightarrow> byte" where
  "fill_bytes p c n m = (\<lambda>a. if a - p < n then c else m a)"

definition memcpy :: "addr \<Rightarrow> addr \<Rightarrow> addr \<Rightarrow> heap \<Rightarrow> heap option" where
  "memcpy dst src n s =
     (if n = 0 then Some s
      else if in_heap s dst n \<and> in_heap s src n
      then Some (s\<lparr>mem := copy_bytes dst src n (mem s)\<rparr>)
      else None)"

definition memset :: "addr \<Rightarrow> byte \<Rightarrow> addr \<Rightarrow> heap \<Rightarrow> heap option" where
  "memset p c n s =
     (if n = 0 then Some s
      else if in_heap s p n
      then Some (s\<lparr>mem := fill_bytes p c n (mem s)\<rparr>)
      else None)"

section \<open>Basic constants and macros (shared by both variants)\<close>

definition WSIZE :: addr where "WSIZE = 4"
definition DSIZE :: addr where "DSIZE = 8"

definition MAX_sz :: "addr \<Rightarrow> addr \<Rightarrow> addr" where
  "MAX_sz x y = (if x > y then x else y)"

definition PACK :: "addr \<Rightarrow> addr \<Rightarrow> addr" where
  "PACK size' alloc = size' OR alloc"

definition GET :: "heap \<Rightarrow> addr \<Rightarrow> word32 option" where
  "GET s p = (if in_heap s p 4 then Some (load32 (mem s) p) else None)"

definition PUT :: "addr \<Rightarrow> word32 \<Rightarrow> heap \<Rightarrow> heap option" where
  "PUT p val s = (if in_heap s p 4 then Some (s\<lparr>mem := store32 p val (mem s)\<rparr>) else None)"

definition GET_SIZE :: "heap \<Rightarrow> addr \<Rightarrow> word32 option" where
  "GET_SIZE s p = do { v \<leftarrow> GET s p; Some (v AND NOT 7) }"

definition GET_ALLOC :: "heap \<Rightarrow> addr \<Rightarrow> word32 option" where
  "GET_ALLOC s p = do { v \<leftarrow> GET s p; Some (v AND 1) }"

definition HDRP :: "addr \<Rightarrow> addr" where
  "HDRP bp = bp - WSIZE"

definition FTRP :: "heap \<Rightarrow> addr \<Rightarrow> addr option" where
  "FTRP s bp = do { sz \<leftarrow> GET_SIZE s (HDRP bp); Some (bp + ucast sz - DSIZE) }"

definition NEXT_BLKP :: "heap \<Rightarrow> addr \<Rightarrow> addr option" where
  "NEXT_BLKP s bp = do { sz \<leftarrow> GET_SIZE s (bp - WSIZE); Some (bp + ucast sz) }"

definition PREV_BLKP :: "heap \<Rightarrow> addr \<Rightarrow> addr option" where
  "PREV_BLKP s bp = do { sz \<leftarrow> GET_SIZE s (bp - DSIZE); Some (bp - ucast sz) }"

definition PTR_OFF :: "addr \<Rightarrow> addr \<Rightarrow> heap \<Rightarrow> heap option" where
  "PTR_OFF p ptr s = PUT p (ucast (ptr - heap_listp s)) s"

definition OFF_PTR :: "heap \<Rightarrow> addr \<Rightarrow> addr option" where
  "OFF_PTR s p = do { v \<leftarrow> GET s p; Some (ucast v + heap_listp s) }"

text \<open>
  The conditions of \<^verbatim>\<open>freelist_delete\<close> are written \<^verbatim>\<open>GET(bp)==0 && GET(bp+WSIZE)!=0\<close>:
  C evaluates the right operand only when the left one is true.
\<close>

definition and_also :: "bool option \<Rightarrow> bool option \<Rightarrow> bool option" where
  "and_also a b = do { x \<leftarrow> a; if x then b else Some False }"

definition is_zero :: "heap \<Rightarrow> addr \<Rightarrow> bool option" where
  "is_zero s p = do { v \<leftarrow> GET s p; Some (v = 0) }"

definition non_zero :: "heap \<Rightarrow> addr \<Rightarrow> bool option" where
  "non_zero s p = do { v \<leftarrow> GET s p; Some (v \<noteq> 0) }"

text \<open>
  The list walk of \<^verbatim>\<open>find_fit\<close> (variant A) and of \<^verbatim>\<open>find_block\<close> (variant B), the same
  \<^verbatim>\<open>while(bp)\<close> loop in both files.  It follows the \<^verbatim>\<open>next\<close> offsets and need not terminate
  on a cyclic list.
\<close>

partial_function (option) first_fit_loop :: "heap \<Rightarrow> addr \<Rightarrow> addr \<Rightarrow> addr option" where
  "first_fit_loop s asize bp =
     (if bp = 0 then Some 0
      else
        do {
          sz \<leftarrow> GET_SIZE s (HDRP bp);
          if ucast sz \<ge> asize then Some bp
          else
            do {
              next \<leftarrow> GET s bp;
              if next = 0 then Some 0
              else do { bp' \<leftarrow> OFF_PTR s bp; first_fit_loop s asize bp' }
            }
        })"

declare first_fit_loop.simps [code]

section \<open>Variant A: one explicit free list\<close>

text \<open>
  \<^verbatim>\<open>#define CHUNKSIZE  (1<<9)+(1<<8)+(1<<7)\<close> has no outer parentheses.  Inside
  \<^verbatim>\<open>MAX(asize,CHUNKSIZE)\<close> the macro \<^verbatim>\<open>MAX\<close> parenthesises its argument, but
  \<^verbatim>\<open>CHUNKSIZE/WSIZE\<close> expands to \<^verbatim>\<open>(1<<9)+(1<<8)+(1<<7)/4\<close>, where the division binds
  tighter than the additions.
\<close>

definition CHUNKSIZE_A :: addr where
  "CHUNKSIZE_A = (push_bit 9 1) + (push_bit 8 1) + (push_bit 7 1)"

definition CHUNKSIZE_div_WSIZE_A :: addr where
  "CHUNKSIZE_div_WSIZE_A = (push_bit 9 1) + (push_bit 8 1) + ((push_bit 7 1) div WSIZE)"

definition freelist_insert_A :: "addr \<Rightarrow> heap \<Rightarrow> heap option" where
  "freelist_insert_A bp s =
     do {
       head \<leftarrow> GET s (free_listp s);
       if head = 0 then
         do {
           s1 \<leftarrow> PTR_OFF (free_listp s) bp s;
           s2 \<leftarrow> PUT bp 0 s1;
           PUT (bp + 4) 0 s2
         }
       else
         do {
           s1 \<leftarrow> PUT bp head s;
           s2 \<leftarrow> PUT (bp + 4) 0 s1;
           first \<leftarrow> OFF_PTR s2 (free_listp s2);
           s3 \<leftarrow> PTR_OFF (first + 4) bp s2;
           PTR_OFF (free_listp s3) bp s3
         }
     }"

definition freelist_delete_A :: "addr \<Rightarrow> heap \<Rightarrow> heap option" where
  "freelist_delete_A bp s =
     do {
       c1 \<leftarrow> and_also (is_zero s bp) (is_zero s (bp + WSIZE));
       s1 \<leftarrow> (if c1 then PUT (free_listp s) 0 s else Some s);
       c2 \<leftarrow> and_also (is_zero s1 bp) (non_zero s1 (bp + WSIZE));
       s2 \<leftarrow> (if c2 then do { prev \<leftarrow> OFF_PTR s1 (bp + WSIZE); PUT prev 0 s1 } else Some s1);
       c3 \<leftarrow> and_also (non_zero s2 bp) (is_zero s2 (bp + WSIZE));
       s3 \<leftarrow> (if c3 then
               do {
                 next \<leftarrow> OFF_PTR s2 bp;
                 t \<leftarrow> PUT (next + 4) 0 s2;
                 v \<leftarrow> GET t bp;
                 PUT (free_listp t) v t
               }
             else Some s2);
       c4 \<leftarrow> and_also (non_zero s3 bp) (non_zero s3 (bp + WSIZE));
       if c4 then
         do {
           next \<leftarrow> OFF_PTR s3 bp;
           pv \<leftarrow> GET s3 (bp + WSIZE);
           t \<leftarrow> PUT (next + 4) pv s3;
           prev \<leftarrow> OFF_PTR t (bp + WSIZE);
           nv \<leftarrow> GET t bp;
           PUT prev nv t
         }
       else Some s3
     }"

definition coalesce_A :: "addr \<Rightarrow> heap \<Rightarrow> (addr \<times> heap) option" where
  "coalesce_A bp s =
     do {
       pb \<leftarrow> PREV_BLKP s bp;
       pf \<leftarrow> FTRP s pb;
       prev_alloc \<leftarrow> GET_ALLOC s pf;
       nb \<leftarrow> NEXT_BLKP s bp;
       next_alloc \<leftarrow> GET_ALLOC s (HDRP nb);
       sz \<leftarrow> GET_SIZE s (HDRP bp);
       let size' = (ucast sz :: addr);
       if prev_alloc \<noteq> 0 \<and> next_alloc \<noteq> 0 then
         do { s1 \<leftarrow> freelist_insert_A bp s; Some (bp, s1) }
       else if prev_alloc \<noteq> 0 \<and> next_alloc = 0 then
         do {
           nb \<leftarrow> NEXT_BLKP s bp;
           nsz \<leftarrow> GET_SIZE s (HDRP nb);
           let size' = size' + ucast nsz;
           s1 \<leftarrow> PUT (HDRP bp) (ucast (PACK size' 0)) s;
           f \<leftarrow> FTRP s1 bp;
           s2 \<leftarrow> PUT f (ucast (PACK size' 0)) s1;
           s3 \<leftarrow> freelist_insert_A bp s2;
           Some (bp, s3)
         }
       else if prev_alloc = 0 \<and> next_alloc \<noteq> 0 then
         do {
           pb \<leftarrow> PREV_BLKP s bp;
           s1 \<leftarrow> freelist_delete_A pb s;
           pb \<leftarrow> PREV_BLKP s1 bp;
           psz \<leftarrow> GET_SIZE s1 (HDRP pb);
           let size' = size' + ucast psz;
           f \<leftarrow> FTRP s1 bp;
           s2 \<leftarrow> PUT f (ucast (PACK size' 0)) s1;
           pb \<leftarrow> PREV_BLKP s2 bp;
           s3 \<leftarrow> PUT (HDRP pb) (ucast (PACK size' 0)) s2;
           bp' \<leftarrow> PREV_BLKP s3 bp;
           s4 \<leftarrow> freelist_insert_A bp' s3;
           Some (bp', s4)
         }
       else
         do {
           pb \<leftarrow> PREV_BLKP s bp;
           s1 \<leftarrow> freelist_delete_A pb s;
           nb \<leftarrow> NEXT_BLKP s1 bp;
           s2 \<leftarrow> freelist_delete_A nb s1;
           pb \<leftarrow> PREV_BLKP s2 bp;
           psz \<leftarrow> GET_SIZE s2 (HDRP pb);
           nb \<leftarrow> NEXT_BLKP s2 bp;
           nf \<leftarrow> FTRP s2 nb;
           nsz \<leftarrow> GET_SIZE s2 nf;
           let size' = size' + ucast (psz + nsz);
           pb \<leftarrow> PREV_BLKP s2 bp;
           s3 \<leftarrow> PUT (HDRP pb) (ucast (PACK size' 0)) s2;
           nb \<leftarrow> NEXT_BLKP s3 bp;
           nf \<leftarrow> FTRP s3 nb;
           s4 \<leftarrow> PUT nf (ucast (PACK size' 0)) s3;
           bp' \<leftarrow> PREV_BLKP s4 bp;
           s5 \<leftarrow> freelist_insert_A bp' s4;
           Some (bp', s5)
         }
     }"

definition extend_heap_A :: "addr \<Rightarrow> heap \<Rightarrow> (addr \<times> heap) option" where
  "extend_heap_A words s =
     (let size' = (if words mod 2 \<noteq> 0 then (words + 1) * WSIZE else words * WSIZE);
          (bp, s0) = mem_sbrk size' s
      in if bp = - 1 then Some (0, s0)
         else
           do {
             s1 \<leftarrow> PUT (HDRP bp) (ucast (PACK size' 0)) s0;
             f \<leftarrow> FTRP s1 bp;
             s2 \<leftarrow> PUT f (ucast (PACK size' 0)) s1;
             nb \<leftarrow> NEXT_BLKP s2 bp;
             s3 \<leftarrow> PUT (HDRP nb) (ucast (PACK 0 1)) s2;
             coalesce_A bp s3
           })"

text \<open>
  \<^verbatim>\<open>mm_init\<close> first lays the heap out (the part up to the two assignments of the global
  pointers) and then extends it.  The layout part is a definition of its own, so that the
  state between the two parts can be talked about.  The result \<open>- 1\<close> or \<open>0\<close> is the C
  return value.
\<close>

definition mm_init_layout_A :: "heap \<Rightarrow> (int \<times> heap) option" where
  "mm_init_layout_A s =
     (let (p, s0) = mem_sbrk (6 * WSIZE) s;
          s0 = s0\<lparr>heap_listp := p\<rparr>
      in if p = - 1 then Some (- 1, s0)
         else
           do {
             s1 \<leftarrow> PUT (heap_listp s0) 0 s0;
             s2 \<leftarrow> PUT (heap_listp s1 + 1 * WSIZE) 0 s1;
             s3 \<leftarrow> PUT (heap_listp s2 + 3 * WSIZE) (ucast (PACK DSIZE 1)) s2;
             s4 \<leftarrow> PUT (heap_listp s3 + 4 * WSIZE) (ucast (PACK DSIZE 1)) s3;
             s5 \<leftarrow> PUT (heap_listp s4 + 5 * WSIZE) (ucast (PACK 0 1)) s4;
             let s6 = s5\<lparr>free_listp := heap_listp s5 + 1 * WSIZE\<rparr>;
             let s7 = s6\<lparr>heap_listp := heap_listp s6 + 4 * WSIZE\<rparr>;
             Some (0, s7)
           })"

definition mm_init_A :: "heap \<Rightarrow> (int \<times> heap) option" where
  "mm_init_A s =
     do {
       (r, s1) \<leftarrow> mm_init_layout_A s;
       if r \<noteq> 0 then Some (r, s1)
       else
         do {
           (bp, s2) \<leftarrow> extend_heap_A CHUNKSIZE_div_WSIZE_A s1;
           if bp = 0 then Some (- 1, s2) else Some (0, s2)
         }
     }"

definition find_fit_A :: "addr \<Rightarrow> heap \<Rightarrow> addr option" where
  "find_fit_A asize s =
     do {
       head \<leftarrow> GET s (free_listp s);
       if head = 0 then Some 0
       else do { bp \<leftarrow> OFF_PTR s (free_listp s); first_fit_loop s asize bp }
     }"

definition place_A :: "addr \<Rightarrow> addr \<Rightarrow> heap \<Rightarrow> heap option" where
  "place_A bp asize s =
     do {
       sz \<leftarrow> GET_SIZE s (HDRP bp);
       let csize = (ucast sz :: addr);
       s1 \<leftarrow> freelist_delete_A bp s;
       if csize - asize \<ge> 2 * DSIZE then
         do {
           s2 \<leftarrow> PUT (HDRP bp) (ucast (PACK asize 1)) s1;
           f \<leftarrow> FTRP s2 bp;
           s3 \<leftarrow> PUT f (ucast (PACK asize 1)) s2;
           bp' \<leftarrow> NEXT_BLKP s3 bp;
           s4 \<leftarrow> PUT (HDRP bp') (ucast (PACK (csize - asize) 0)) s3;
           f' \<leftarrow> FTRP s4 bp';
           s5 \<leftarrow> PUT f' (ucast (PACK (csize - asize) 0)) s4;
           freelist_insert_A bp' s5
         }
       else
         do {
           s2 \<leftarrow> PUT (HDRP bp) (ucast (PACK csize 1)) s1;
           f \<leftarrow> FTRP s2 bp;
           PUT f (ucast (PACK csize 1)) s2
         }
     }"

definition asize_A :: "addr \<Rightarrow> addr" where
  "asize_A size' =
     (if size' \<le> DSIZE then 2 * DSIZE
      else DSIZE * ((size' + DSIZE + (DSIZE - 1)) div DSIZE))"

definition lazy_init_A :: "heap \<Rightarrow> heap option" where
  "lazy_init_A s = (if heap_listp s = 0 then map_option snd (mm_init_A s) else Some s)"

definition mm_malloc_A :: "addr \<Rightarrow> heap \<Rightarrow> (addr \<times> heap) option" where
  "mm_malloc_A size' s0 =
     do {
       s \<leftarrow> lazy_init_A s0;
       if size' = 0 then Some (0, s)
       else
         do {
           let asize = asize_A size';
           bp \<leftarrow> find_fit_A asize s;
           if bp \<noteq> 0 then do { s1 \<leftarrow> place_A bp asize s; Some (bp, s1) }
           else
             do {
               let extendsize = MAX_sz asize CHUNKSIZE_A;
               (bp, s1) \<leftarrow> extend_heap_A (extendsize div WSIZE) s;
               if bp = 0 then Some (0, s1)
               else do { s2 \<leftarrow> place_A bp asize s1; Some (bp, s2) }
             }
         }
     }"

text \<open>
  \<^verbatim>\<open>mm_free\<close> reads the block size, runs the lazy initialisation and then releases the
  block; the last part is \<open>free_block_A\<close>.
\<close>

definition free_block_A :: "addr \<Rightarrow> addr \<Rightarrow> heap \<Rightarrow> heap option" where
  "free_block_A bp size' s =
     do {
       s1 \<leftarrow> PUT (HDRP bp) (ucast (PACK size' 0)) s;
       f \<leftarrow> FTRP s1 bp;
       s2 \<leftarrow> PUT f (ucast (PACK size' 0)) s1;
       map_option snd (coalesce_A bp s2)
     }"

definition mm_free_A :: "addr \<Rightarrow> heap \<Rightarrow> heap option" where
  "mm_free_A bp s0 =
     (if bp = 0 then Some s0
      else
        do {
          sz \<leftarrow> GET_SIZE s0 (HDRP bp);
          let size' = (ucast sz :: addr);
          s \<leftarrow> lazy_init_A s0;
          free_block_A bp size' s
        })"

definition mm_realloc_A :: "addr \<Rightarrow> addr \<Rightarrow> heap \<Rightarrow> (addr \<times> heap) option" where
  "mm_realloc_A ptr size' s =
     (if size' = 0 then do { s1 \<leftarrow> mm_free_A ptr s; Some (0, s1) }
      else if ptr = 0 then mm_malloc_A size' s
      else
        do {
          (newptr, s1) \<leftarrow> mm_malloc_A size' s;
          if newptr = 0 then Some (0, s1)
          else
            do {
              sz \<leftarrow> GET_SIZE s1 (HDRP ptr);
              let oldsize = (ucast sz :: addr);
              let oldsize = (if size' < oldsize then size' else oldsize);
              s2 \<leftarrow> memcpy newptr ptr oldsize s1;
              s3 \<leftarrow> mm_free_A ptr s2;
              Some (newptr, s3)
            }
        })"

text \<open>
  \<^verbatim>\<open>calloc\<close> calls \<^verbatim>\<open>malloc\<close>; the header \<^verbatim>\<open>mm.h\<close>, which is not among the sources, maps that
  name to the allocator's own \<^verbatim>\<open>mm_malloc\<close>.
\<close>

definition calloc_A :: "addr \<Rightarrow> addr \<Rightarrow> heap \<Rightarrow> (addr \<times> heap) option" where
  "calloc_A nmemb size' s =
     do {
       let bytes = nmemb * size';
       (newptr, s1) \<leftarrow> mm_malloc_A bytes s;
       s2 \<leftarrow> memset newptr 0 bytes s1;
       Some (newptr, s2)
     }"

section \<open>Variant B: segregated free lists, no footer in allocated blocks\<close>

definition CHUNKSIZE_B :: addr where
  "CHUNKSIZE_B = (push_bit 8 1) - (push_bit 5 1)"

definition CHUNKSIZE_div_WSIZE_B :: addr where
  "CHUNKSIZE_div_WSIZE_B = (push_bit 8 1) - ((push_bit 5 1) div WSIZE)"

definition LIST1 :: addr where "LIST1 = push_bit 4 1"
definition LIST2 :: addr where "LIST2 = 24"
definition LIST3 :: addr where "LIST3 = 48"
definition LIST4 :: addr where "LIST4 = push_bit 7 1"
definition LIST5 :: addr where "LIST5 = push_bit 8 1"
definition LIST6 :: addr where "LIST6 = push_bit 9 1"
definition LIST7 :: addr where "LIST7 = push_bit 10 1"
definition LIST8 :: addr where "LIST8 = push_bit 11 1"
definition LIST9 :: addr where "LIST9 = push_bit 12 1"
definition LIST10 :: addr where "LIST10 = 9200"
definition LIST11 :: addr where "LIST11 = 12000"
definition LIST12 :: addr where "LIST12 = 16000"
definition LIST13 :: addr where "LIST13 = 20000"
definition LIST14 :: addr where "LIST14 = 24000"
definition LIST15 :: addr where "LIST15 = 28000"
definition LIST16 :: addr where "LIST16 = 32000"
definition LIST17 :: addr where "LIST17 = 40000"
definition LIST18 :: addr where "LIST18 = push_bit 15 1"
definition LIST19 :: addr where "LIST19 = push_bit 16 1"
definition LIST20 :: addr where "LIST20 = push_bit 17 1"
definition LIST21 :: addr where "LIST21 = push_bit 18 1"
definition LIST22 :: addr where "LIST22 = push_bit 19 1"
definition LIST23 :: addr where "LIST23 = push_bit 20 1"

definition LIST_NUM :: nat where "LIST_NUM = 24"

definition PUT_HD :: "addr \<Rightarrow> word32 \<Rightarrow> heap \<Rightarrow> heap option" where
  "PUT_HD p val s = do { v \<leftarrow> GET s p; PUT p ((v AND 2) OR val) s }"

definition PREV_ALLOC :: "addr \<Rightarrow> heap \<Rightarrow> heap option" where
  "PREV_ALLOC bp s =
     do { nb \<leftarrow> NEXT_BLKP s bp; v \<leftarrow> GET s (HDRP nb); PUT (HDRP nb) (v OR 2) s }"

definition PREV_UNALLOC :: "addr \<Rightarrow> heap \<Rightarrow> heap option" where
  "PREV_UNALLOC bp s =
     do { nb \<leftarrow> NEXT_BLKP s bp; v \<leftarrow> GET s (HDRP nb); PUT (HDRP nb) (v AND NOT 2) s }"

definition GET_PREV_ALLOC :: "heap \<Rightarrow> addr \<Rightarrow> word32 option" where
  "GET_PREV_ALLOC s bp = do { v \<leftarrow> GET s (HDRP bp); Some (v AND 2) }"

definition list_entry :: "addr \<Rightarrow> nat" where
  "list_entry size' =
     (if size' \<le> LIST1 then 0
      else if size' \<le> LIST2 then 1
      else if size' \<le> LIST3 then 2
      else if size' \<le> LIST4 then 3
      else if size' \<le> LIST5 then 4
      else if size' \<le> LIST6 then 5
      else if size' \<le> LIST7 then 6
      else if size' \<le> LIST8 then 7
      else if size' \<le> LIST9 then 8
      else if size' \<le> LIST10 then 9
      else if size' \<le> LIST11 then 10
      else if size' \<le> LIST12 then 11
      else if size' \<le> LIST13 then 12
      else if size' \<le> LIST14 then 13
      else if size' \<le> LIST15 then 14
      else if size' \<le> LIST16 then 15
      else if size' \<le> LIST17 then 16
      else if size' \<le> LIST18 then 17
      else if size' \<le> LIST19 then 18
      else LIST_NUM - 1)"

text \<open>The address of the head word of the list that a block of \<open>bp\<close>'s size belongs to.\<close>

definition list_of :: "heap \<Rightarrow> addr \<Rightarrow> addr option" where
  "list_of s bp =
     do {
       sz \<leftarrow> GET_SIZE s (HDRP bp);
       Some (free_listp s + 4 * of_nat (list_entry (ucast sz)))
     }"

definition freelist_insert_B :: "addr \<Rightarrow> heap \<Rightarrow> heap option" where
  "freelist_insert_B bp s =
     do {
       list \<leftarrow> list_of s bp;
       head \<leftarrow> GET s list;
       if head = 0 then
         do {
           s1 \<leftarrow> PTR_OFF list bp s;
           s2 \<leftarrow> PUT bp 0 s1;
           PUT (bp + 4) 0 s2
         }
       else
         do {
           s1 \<leftarrow> PUT bp head s;
           s2 \<leftarrow> PUT (bp + 4) 0 s1;
           first \<leftarrow> OFF_PTR s2 list;
           s3 \<leftarrow> PTR_OFF (first + 4) bp s2;
           PTR_OFF list bp s3
         }
     }"

definition freelist_delete_B :: "addr \<Rightarrow> heap \<Rightarrow> heap option" where
  "freelist_delete_B bp s =
     do {
       list \<leftarrow> list_of s bp;
       c1 \<leftarrow> and_also (is_zero s bp) (is_zero s (bp + WSIZE));
       s1 \<leftarrow> (if c1 then PUT list 0 s else Some s);
       c2 \<leftarrow> and_also (is_zero s1 bp) (non_zero s1 (bp + WSIZE));
       s2 \<leftarrow> (if c2 then do { prev \<leftarrow> OFF_PTR s1 (bp + WSIZE); PUT prev 0 s1 } else Some s1);
       c3 \<leftarrow> and_also (non_zero s2 bp) (is_zero s2 (bp + WSIZE));
       s3 \<leftarrow> (if c3 then
               do {
                 next \<leftarrow> OFF_PTR s2 bp;
                 t \<leftarrow> PUT (next + 4) 0 s2;
                 v \<leftarrow> GET t bp;
                 PUT list v t
               }
             else Some s2);
       c4 \<leftarrow> and_also (non_zero s3 bp) (non_zero s3 (bp + WSIZE));
       if c4 then
         do {
           next \<leftarrow> OFF_PTR s3 bp;
           pv \<leftarrow> GET s3 (bp + WSIZE);
           t \<leftarrow> PUT (next + 4) pv s3;
           prev \<leftarrow> OFF_PTR t (bp + WSIZE);
           nv \<leftarrow> GET t bp;
           PUT prev nv t
         }
       else Some s3
     }"

definition coalesce_B :: "addr \<Rightarrow> heap \<Rightarrow> (addr \<times> heap) option" where
  "coalesce_B bp s =
     do {
       prev_alloc \<leftarrow> GET_PREV_ALLOC s bp;
       nb \<leftarrow> NEXT_BLKP s bp;
       next_alloc \<leftarrow> GET_ALLOC s (HDRP nb);
       sz \<leftarrow> GET_SIZE s (HDRP bp);
       let size' = (ucast sz :: addr);
       if prev_alloc \<noteq> 0 \<and> next_alloc \<noteq> 0 then
         do { s1 \<leftarrow> freelist_insert_B bp s; Some (bp, s1) }
       else if prev_alloc \<noteq> 0 \<and> next_alloc = 0 then
         do {
           nb \<leftarrow> NEXT_BLKP s bp;
           nsz \<leftarrow> GET_SIZE s (HDRP nb);
           let size' = size' + ucast nsz;
           s1 \<leftarrow> PUT_HD (HDRP bp) (ucast (PACK size' 0)) s;
           f \<leftarrow> FTRP s1 bp;
           s2 \<leftarrow> PUT f (ucast (PACK size' 0)) s1;
           s3 \<leftarrow> freelist_insert_B bp s2;
           Some (bp, s3)
         }
       else if prev_alloc = 0 \<and> next_alloc \<noteq> 0 then
         do {
           pb \<leftarrow> PREV_BLKP s bp;
           s1 \<leftarrow> freelist_delete_B pb s;
           pb \<leftarrow> PREV_BLKP s1 bp;
           psz \<leftarrow> GET_SIZE s1 (HDRP pb);
           let size' = size' + ucast psz;
           f \<leftarrow> FTRP s1 bp;
           s2 \<leftarrow> PUT f (ucast (PACK size' 0)) s1;
           pb \<leftarrow> PREV_BLKP s2 bp;
           s3 \<leftarrow> PUT_HD (HDRP pb) (ucast (PACK size' 0)) s2;
           bp' \<leftarrow> PREV_BLKP s3 bp;
           s4 \<leftarrow> freelist_insert_B bp' s3;
           Some (bp', s4)
         }
       else
         do {
           pb \<leftarrow> PREV_BLKP s bp;
           s1 \<leftarrow> freelist_delete_B pb s;
           nb \<leftarrow> NEXT_BLKP s1 bp;
           s2 \<leftarrow> freelist_delete_B nb s1;
           pb \<leftarrow> PREV_BLKP s2 bp;
           psz \<leftarrow> GET_SIZE s2 (HDRP pb);
           nb \<leftarrow> NEXT_BLKP s2 bp;
           nf \<leftarrow> FTRP s2 nb;
           nsz \<leftarrow> GET_SIZE s2 nf;
           let size' = size' + ucast (psz + nsz);
           pb \<leftarrow> PREV_BLKP s2 bp;
           s3 \<leftarrow> PUT_HD (HDRP pb) (ucast (PACK size' 0)) s2;
           nb \<leftarrow> NEXT_BLKP s3 bp;
           nf \<leftarrow> FTRP s3 nb;
           s4 \<leftarrow> PUT nf (ucast (PACK size' 0)) s3;
           bp' \<leftarrow> PREV_BLKP s4 bp;
           s5 \<leftarrow> freelist_insert_B bp' s4;
           Some (bp', s5)
         }
     }"

definition extend_heap_B :: "addr \<Rightarrow> heap \<Rightarrow> (addr \<times> heap) option" where
  "extend_heap_B words s =
     (let size' = (if words mod 2 \<noteq> 0 then (words + 1) * WSIZE else words * WSIZE);
          (bp, s0) = mem_sbrk size' s
      in if bp = - 1 then Some (0, s0)
         else
           do {
             s1 \<leftarrow> PUT_HD (HDRP bp) (ucast (PACK size' 0)) s0;
             f \<leftarrow> FTRP s1 bp;
             s2 \<leftarrow> PUT f (ucast (PACK size' 0)) s1;
             nb \<leftarrow> NEXT_BLKP s2 bp;
             s3 \<leftarrow> PUT_HD (HDRP nb) (ucast (PACK 0 1)) s2;
             coalesce_B bp s3
           })"

function init_free_list :: "nat \<Rightarrow> heap \<Rightarrow> heap option" where
  "init_free_list i s =
     (if i < LIST_NUM
      then do { s1 \<leftarrow> PUT (free_listp s + of_nat i * WSIZE) 0 s; init_free_list (i + 1) s1 }
      else Some s)"
  by pat_completeness auto
termination
  by (relation "measure (\<lambda>(i, s). LIST_NUM - i)") auto

declare init_free_list.simps [simp del]

definition mm_init_layout_B :: "heap \<Rightarrow> (int \<times> heap) option" where
  "mm_init_layout_B s =
     (let (p, s0) = mem_sbrk (4 * WSIZE + of_nat LIST_NUM * WSIZE) s;
          s0 = s0\<lparr>heap_listp := p\<rparr>
      in if p = - 1 then Some (- 1, s0)
         else
           do {
             s1 \<leftarrow> PUT (heap_listp s0) 0 s0;
             s2 \<leftarrow> PUT (heap_listp s1 + (of_nat LIST_NUM + 1) * WSIZE) (ucast (PACK DSIZE 1)) s1;
             s3 \<leftarrow> PUT (heap_listp s2 + (of_nat LIST_NUM + 2) * WSIZE) (ucast (PACK DSIZE 1)) s2;
             s4 \<leftarrow> PUT (heap_listp s3 + (of_nat LIST_NUM + 3) * WSIZE) (ucast (PACK 0 1)) s3;
             let s5 = s4\<lparr>free_listp := heap_listp s4 + 1 * WSIZE\<rparr>;
             let s6 = s5\<lparr>heap_listp := heap_listp s5 + (of_nat LIST_NUM + 2) * WSIZE\<rparr>;
             s7 \<leftarrow> PREV_ALLOC (heap_listp s6) s6;
             s8 \<leftarrow> init_free_list 0 s7;
             Some (0, s8)
           })"

definition mm_init_B :: "heap \<Rightarrow> (int \<times> heap) option" where
  "mm_init_B s =
     do {
       (r, s1) \<leftarrow> mm_init_layout_B s;
       if r \<noteq> 0 then Some (r, s1)
       else
         do {
           (bp, s2) \<leftarrow> extend_heap_B CHUNKSIZE_div_WSIZE_B s1;
           if bp = 0 then Some (- 1, s2) else Some (0, s2)
         }
     }"

definition place_B :: "addr \<Rightarrow> addr \<Rightarrow> heap \<Rightarrow> heap option" where
  "place_B bp asize s =
     do {
       sz \<leftarrow> GET_SIZE s (HDRP bp);
       let csize = (ucast sz :: addr);
       s1 \<leftarrow> freelist_delete_B bp s;
       if csize - asize \<ge> 2 * DSIZE then
         do {
           s2 \<leftarrow> PUT_HD (HDRP bp) (ucast (PACK asize 1)) s1;
           s3 \<leftarrow> PREV_ALLOC bp s2;
           bp' \<leftarrow> NEXT_BLKP s3 bp;
           s4 \<leftarrow> PUT_HD (HDRP bp') (ucast (PACK (csize - asize) 0)) s3;
           f' \<leftarrow> FTRP s4 bp';
           s5 \<leftarrow> PUT f' (ucast (PACK (csize - asize) 0)) s4;
           s6 \<leftarrow> PREV_UNALLOC bp' s5;
           freelist_insert_B bp' s6
         }
       else
         do {
           s2 \<leftarrow> PUT_HD (HDRP bp) (ucast (PACK csize 1)) s1;
           PREV_ALLOC bp s2
         }
     }"

definition find_block :: "addr \<Rightarrow> addr \<Rightarrow> heap \<Rightarrow> addr option" where
  "find_block list asize s =
     do {
       bp \<leftarrow> OFF_PTR s list;
       head \<leftarrow> GET s list;
       if head = 0 then Some 0 else first_fit_loop s asize bp
     }"

function find_fit_from :: "nat \<Rightarrow> addr \<Rightarrow> heap \<Rightarrow> addr option" where
  "find_fit_from entry asize s =
     (if entry < LIST_NUM then
        do {
          head \<leftarrow> GET s (free_listp s + WSIZE * of_nat entry);
          if head = 0 then find_fit_from (entry + 1) asize s
          else
            do {
              bp \<leftarrow> find_block (free_listp s + of_nat entry * WSIZE) asize s;
              if bp \<noteq> 0 then Some bp else find_fit_from (entry + 1) asize s
            }
        }
      else Some 0)"
  by pat_completeness auto
termination
  by (relation "measure (\<lambda>(entry, asize, s). LIST_NUM - entry)") auto

declare find_fit_from.simps [simp del]

definition find_fit_B :: "addr \<Rightarrow> heap \<Rightarrow> addr option" where
  "find_fit_B asize s = find_fit_from (list_entry asize) asize s"

definition asize_B :: "addr \<Rightarrow> addr" where
  "asize_B size' =
     (if size' \<le> DSIZE then 2 * DSIZE
      else DSIZE * ((size' + WSIZE + (DSIZE - 1)) div DSIZE))"

definition lazy_init_B :: "heap \<Rightarrow> heap option" where
  "lazy_init_B s = (if heap_listp s = 0 then map_option snd (mm_init_B s) else Some s)"

definition mm_malloc_B :: "addr \<Rightarrow> heap \<Rightarrow> (addr \<times> heap) option" where
  "mm_malloc_B size' s0 =
     do {
       s \<leftarrow> lazy_init_B s0;
       if size' = 0 then Some (0, s)
       else
         do {
           let asize = asize_B size';
           bp \<leftarrow> find_fit_B asize s;
           if bp \<noteq> 0 then do { s1 \<leftarrow> place_B bp asize s; Some (bp, s1) }
           else
             do {
               let extendsize = MAX_sz asize CHUNKSIZE_B;
               (bp, s1) \<leftarrow> extend_heap_B (extendsize div WSIZE) s;
               if bp = 0 then Some (0, s1)
               else do { s2 \<leftarrow> place_B bp asize s1; Some (bp, s2) }
             }
         }
     }"

text \<open>
  \<^verbatim>\<open>mm_free\<close> reads the block size, runs the lazy initialisation and then releases the
  block; the last part is \<open>free_block_B\<close>.
\<close>

definition free_block_B :: "addr \<Rightarrow> addr \<Rightarrow> heap \<Rightarrow> heap option" where
  "free_block_B bp size' s =
     do {
       s1 \<leftarrow> PUT_HD (HDRP bp) (ucast (PACK size' 0)) s;
       f \<leftarrow> FTRP s1 bp;
       s2 \<leftarrow> PUT f (ucast (PACK size' 0)) s1;
       s3 \<leftarrow> PREV_UNALLOC bp s2;
       map_option snd (coalesce_B bp s3)
     }"

definition mm_free_B :: "addr \<Rightarrow> heap \<Rightarrow> heap option" where
  "mm_free_B bp s0 =
     (if bp = 0 then Some s0
      else
        do {
          sz \<leftarrow> GET_SIZE s0 (HDRP bp);
          let size' = (ucast sz :: addr);
          s \<leftarrow> lazy_init_B s0;
          free_block_B bp size' s
        })"

definition mm_realloc_B :: "addr \<Rightarrow> addr \<Rightarrow> heap \<Rightarrow> (addr \<times> heap) option" where
  "mm_realloc_B ptr size' s =
     (if size' = 0 then do { s1 \<leftarrow> mm_free_B ptr s; Some (0, s1) }
      else if ptr = 0 then mm_malloc_B size' s
      else
        do {
          (newptr, s1) \<leftarrow> mm_malloc_B size' s;
          if newptr = 0 then Some (0, s1)
          else
            do {
              sz \<leftarrow> GET_SIZE s1 (HDRP ptr);
              let oldsize = (ucast sz :: addr);
              let oldsize = (if size' < oldsize then size' else oldsize);
              s2 \<leftarrow> memcpy newptr ptr oldsize s1;
              s3 \<leftarrow> mm_free_B ptr s2;
              Some (newptr, s3)
            }
        })"

definition calloc_B :: "addr \<Rightarrow> addr \<Rightarrow> heap \<Rightarrow> (addr \<times> heap) option" where
  "calloc_B nmemb size' s =
     do {
       let bytes = nmemb * size';
       (newptr, s1) \<leftarrow> mm_malloc_B bytes s;
       s2 \<leftarrow> memset newptr 0 bytes s1;
       Some (newptr, s2)
     }"

section \<open>The deletion routine with mutually exclusive branches\<close>

text \<open>
  The specification asks for \<^verbatim>\<open>freelist_delete\<close> with \<^verbatim>\<open>else if\<close> branches instead of the
  four independent \<^verbatim>\<open>if\<close> statements of the source.  These two definitions follow the
  specification's wording (section 4.7); the branch bodies are those of the source.
\<close>

definition freelist_delete_elseif_A :: "addr \<Rightarrow> heap \<Rightarrow> heap option" where
  "freelist_delete_elseif_A bp s =
     do {
       c1 \<leftarrow> and_also (is_zero s bp) (is_zero s (bp + WSIZE));
       if c1 then PUT (free_listp s) 0 s
       else
         do {
           c2 \<leftarrow> and_also (is_zero s bp) (non_zero s (bp + WSIZE));
           if c2 then do { prev \<leftarrow> OFF_PTR s (bp + WSIZE); PUT prev 0 s }
           else
             do {
               c3 \<leftarrow> and_also (non_zero s bp) (is_zero s (bp + WSIZE));
               if c3 then
                 do {
                   next \<leftarrow> OFF_PTR s bp;
                   t \<leftarrow> PUT (next + 4) 0 s;
                   v \<leftarrow> GET t bp;
                   PUT (free_listp t) v t
                 }
               else
                 do {
                   c4 \<leftarrow> and_also (non_zero s bp) (non_zero s (bp + WSIZE));
                   if c4 then
                     do {
                       next \<leftarrow> OFF_PTR s bp;
                       pv \<leftarrow> GET s (bp + WSIZE);
                       t \<leftarrow> PUT (next + 4) pv s;
                       prev \<leftarrow> OFF_PTR t (bp + WSIZE);
                       nv \<leftarrow> GET t bp;
                       PUT prev nv t
                     }
                   else Some s
                 }
             }
         }
     }"

definition freelist_delete_elseif_B :: "addr \<Rightarrow> heap \<Rightarrow> heap option" where
  "freelist_delete_elseif_B bp s =
     do {
       list \<leftarrow> list_of s bp;
       c1 \<leftarrow> and_also (is_zero s bp) (is_zero s (bp + WSIZE));
       if c1 then PUT list 0 s
       else
         do {
           c2 \<leftarrow> and_also (is_zero s bp) (non_zero s (bp + WSIZE));
           if c2 then do { prev \<leftarrow> OFF_PTR s (bp + WSIZE); PUT prev 0 s }
           else
             do {
               c3 \<leftarrow> and_also (non_zero s bp) (is_zero s (bp + WSIZE));
               if c3 then
                 do {
                   next \<leftarrow> OFF_PTR s bp;
                   t \<leftarrow> PUT (next + 4) 0 s;
                   v \<leftarrow> GET t bp;
                   PUT list v t
                 }
               else
                 do {
                   c4 \<leftarrow> and_also (non_zero s bp) (non_zero s (bp + WSIZE));
                   if c4 then
                     do {
                       next \<leftarrow> OFF_PTR s bp;
                       pv \<leftarrow> GET s (bp + WSIZE);
                       t \<leftarrow> PUT (next + 4) pv s;
                       prev \<leftarrow> OFF_PTR t (bp + WSIZE);
                       nv \<leftarrow> GET t bp;
                       PUT prev nv t
                     }
                   else Some s
                 }
             }
         }
     }"

section \<open>A concrete machine for running the code\<close>

text \<open>
  A fresh substrate: one megabyte of zero-filled memory starting at address \<open>0x1000\<close>, an
  empty heap and both global pointers still null.
\<close>

definition heap0 :: heap where
  "heap0 = \<lparr>mem = (\<lambda>_. 0), mem_start_brk = 0x1000, mem_brk = 0x1000,
             mem_max_addr = 0x101000, heap_listp = 0, free_listp = 0\<rparr>"

text \<open>
  A heap in which the block at \<open>0x1018\<close> (32 bytes, free) is the head of the free list and
  the block at \<open>0x1038\<close> is its successor.
\<close>

definition heapW :: heap where
  "heapW = \<lparr>mem = store32 0x1004 8 (store32 0x1014 32 (store32 0x1018 0x28
                    (store32 0x103C 8 (\<lambda>_. 0)))),
             mem_start_brk = 0x1000, mem_brk = 0x2000,
             mem_max_addr = 0x101000, heap_listp = 0x1010, free_listp = 0x1004\<rparr>"

text \<open>
  Predicates for the proofs: an operation that returns leaves the global \<^verbatim>\<open>heap_listp\<close> at
  the value \<open>h\<close>.
\<close>

definition keeps_hl :: "addr \<Rightarrow> heap option \<Rightarrow> bool" where
  "keeps_hl h r \<longleftrightarrow> (\<forall>t. r = Some t \<longrightarrow> heap_listp t = h)"

definition keeps_hl2 :: "addr \<Rightarrow> (addr \<times> heap) option \<Rightarrow> bool" where
  "keeps_hl2 h r \<longleftrightarrow> (\<forall>x t. r = Some (x, t) \<longrightarrow> heap_listp t = h)"

text \<open>
  The state of variant A after \<^verbatim>\<open>mm_init(); p = mm_malloc(16); mm_free(p); mm_malloc(16)\<close> on
  the fresh machine.
\<close>

definition hang_prefix_A :: "heap option" where
  "hang_prefix_A =
     mm_init_A heap0 \<bind> (\<lambda>(r, s1). mm_malloc_A 16 s1 \<bind> (\<lambda>(p, s2). mm_free_A p s2 \<bind>
       (\<lambda>s3. mm_malloc_A 16 s3 \<bind> (\<lambda>(q, s4). Some s4))))"

text \<open>
  The fresh machine with a mark in the third word behind the break: what \<^verbatim>\<open>mm_init\<close> does not
  write is still there afterwards.
\<close>

definition heapD :: heap where
  "heapD = heap0\<lparr>mem := store32 0x1008 0xDEADBEEF (mem heap0)\<rparr>"

section \<open>Memory lemmas\<close>

lemma bind_weak_cong: "m = m' \<Longrightarrow> Option.bind m f = Option.bind m' f"
  by simp

lemma bytes_of_word32:
  "ucast (ucast v :: byte) OR push_bit 8 (ucast (ucast (drop_bit 8 v) :: byte)) OR
   push_bit 16 (ucast (ucast (drop_bit 16 v) :: byte)) OR
   push_bit 24 (ucast (ucast (drop_bit 24 v) :: byte)) = (v :: word32)" (is "?l = _")
proof (rule bit_word_eqI)
  fix n assume "n < LENGTH(32)"
  then show "bit ?l n = bit v n"
    by (cases "n < 8"; cases "n < 16"; cases "n < 24") (auto simp: bit_simps)
qed

lemma load32_store32_same: "load32 (store32 p v m) p = v"
  by (simp add: load32_def store32_def bytes_of_word32)

text \<open>Two 4-byte words do not overlap when their addresses are at least 4 apart both ways.\<close>

lemma apart_bytes:
  fixes p q :: addr
  assumes "4 \<le> q - p" "4 \<le> p - q"
  shows "q \<noteq> p" "q \<noteq> p + 1" "q \<noteq> p + 2" "q \<noteq> p + 3"
        "q + 1 \<noteq> p" "q + 1 \<noteq> p + 1" "q + 1 \<noteq> p + 2" "q + 1 \<noteq> p + 3"
        "q + 2 \<noteq> p" "q + 2 \<noteq> p + 1" "q + 2 \<noteq> p + 2" "q + 2 \<noteq> p + 3"
        "q + 3 \<noteq> p" "q + 3 \<noteq> p + 1" "q + 3 \<noteq> p + 2" "q + 3 \<noteq> p + 3"
  using assms by (auto simp: word_le_nat_alt)

lemma load32_store32_other:
  "4 \<le> q - p \<Longrightarrow> 4 \<le> p - q \<Longrightarrow> load32 (store32 p v m) q = load32 m q"
  by (simp add: load32_def store32_def apart_bytes)

lemma load32_zero: "load32 (\<lambda>_. 0) q = 0"
  by (simp add: load32_def)

text \<open>The rewrite rules that run the code on a concrete machine.\<close>

lemmas run_macros =
  mem_sbrk_def PUT_def GET_def in_heap_def WSIZE_def DSIZE_def PACK_def HDRP_def FTRP_def
  NEXT_BLKP_def PREV_BLKP_def GET_SIZE_def GET_ALLOC_def PTR_OFF_def OFF_PTR_def MAX_sz_def
  and_also_def is_zero_def non_zero_def first_fit_loop.simps
  load32_store32_same load32_store32_other load32_zero

lemmas run_A =
  run_macros mm_init_A_def mm_init_layout_A_def extend_heap_A_def coalesce_A_def
  freelist_insert_A_def freelist_delete_A_def CHUNKSIZE_div_WSIZE_A_def CHUNKSIZE_A_def
  mm_malloc_A_def mm_free_A_def free_block_A_def lazy_init_A_def asize_A_def place_A_def
  find_fit_A_def

lemmas LIST_defs =
  LIST1_def LIST2_def LIST3_def LIST4_def LIST5_def LIST6_def LIST7_def LIST8_def LIST9_def
  LIST10_def LIST11_def LIST12_def LIST13_def LIST14_def LIST15_def LIST16_def LIST17_def
  LIST18_def LIST19_def LIST20_def LIST21_def LIST22_def LIST23_def LIST_NUM_def

lemmas run_B =
  run_macros mm_init_B_def mm_init_layout_B_def extend_heap_B_def coalesce_B_def
  freelist_insert_B_def freelist_delete_B_def CHUNKSIZE_div_WSIZE_B_def CHUNKSIZE_B_def
  mm_malloc_B_def mm_free_B_def free_block_B_def lazy_init_B_def asize_B_def place_B_def
  find_fit_B_def find_fit_from.simps find_block_def init_free_list.simps list_of_def
  list_entry_def LIST_defs PUT_HD_def PREV_ALLOC_def PREV_UNALLOC_def GET_PREV_ALLOC_def

section \<open>The adjusted block size (C2)\<close>

lemma ceil8: "\<lceil>real m / 8\<rceil> = int ((m + 7) div 8)"
proof -
  have "\<lceil>real m / 8\<rceil> = \<lceil>of_int (int m) / (of_int 8 :: real)\<rceil>" by simp
  also have "\<dots> = - (- int m div 8)" by (rule ceiling_divide_eq_div)
  also have "\<dots> = int ((m + 7) div 8)" by linarith
  finally show ?thesis .
qed

lemma unat_plus_small:
  fixes n :: addr
  assumes "unat n + k < 2 ^ 64"
  shows "unat (n + of_nat k) = unat n + k"
proof -
  have k: "unat (of_nat k :: addr) = k" using assms by (simp add: unat_of_nat)
  have "unat n + unat (of_nat k :: addr) < 2 ^ LENGTH(64)" using assms k by simp
  then have "unat (n + of_nat k) = unat n + unat (of_nat k :: addr)"
    by (rule unat_add_lem [THEN iffD1])
  with k show ?thesis by simp
qed

lemma unat_round8:
  fixes x :: addr
  shows "unat (8 * (x div 8)) = 8 * (unat x div 8)"
proof -
  have "8 * (unat x div 8) \<le> unat x" by simp
  also have "unat x < 2 ^ 64" using unsigned_less [of x, where 'a = nat] by simp
  finally have lt: "8 * (unat x div 8) < 2 ^ 64" .
  have "unat (8 * (x div 8)) = (8 * unat (x div 8)) mod 2 ^ 64"
    by (simp add: unat_word_ariths)
  also have "\<dots> = (8 * (unat x div 8)) mod 2 ^ 64" by (simp add: unat_div)
  also have "\<dots> = 8 * (unat x div 8)" using lt by simp
  finally show ?thesis .
qed

lemma asize_A_nat:
  assumes "unat n + 15 < 2 ^ 64"
  shows "unat (asize_A n) = (if unat n \<le> 8 then 16 else 8 * ((unat n + 15) div 8))"
proof -
  have "unat (n + of_nat 15) = unat n + 15" using assms by (rule unat_plus_small)
  then have a: "unat (n + 15) = unat n + 15" by simp
  have le: "n \<le> 8 \<longleftrightarrow> unat n \<le> 8" by (simp add: word_le_nat_alt)
  show ?thesis
    by (simp add: asize_A_def DSIZE_def le unat_round8 a add.assoc)
qed

lemma asize_B_nat:
  assumes "unat n + 11 < 2 ^ 64"
  shows "unat (asize_B n) = (if unat n \<le> 8 then 16 else 8 * ((unat n + 11) div 8))"
proof -
  have "unat (n + of_nat 11) = unat n + 11" using assms by (rule unat_plus_small)
  then have a: "unat (n + 11) = unat n + 11" by simp
  have le: "n \<le> 8 \<longleftrightarrow> unat n \<le> 8" by (simp add: word_le_nat_alt)
  show ?thesis
    by (simp add: asize_B_def DSIZE_def WSIZE_def le unat_round8 a add.assoc)
qed

text \<open>
  C2, as stated, at the request \<open>n = 9\<close> in variant A: the claim gives
  \<open>8 * ceil((9 + 16) / 8) = 32\<close>, the code computes 24.
\<close>

theorem asize_A_not_plus_16:
  "unat (asize_A 9) = 24 \<and> 8 * \<lceil>(9 + 16) / (8 :: real)\<rceil> = 32"
  by (simp add: asize_A_def DSIZE_def)

text \<open>
  C2, amended.  For every request \<open>n\<close> whose rounding does not wrap around in \<^verbatim>\<open>size_t\<close>
  (\<open>n + 15 < 2^64\<close> in variant A, \<open>n + 11 < 2^64\<close> in variant B) the adjusted size is 16 when
  \<open>n \<le> 8\<close>, otherwise \<open>8 * ceil((n + 8) / 8)\<close> in variant A (header and footer, 8 bytes)
  and \<open>8 * ceil((n + 4) / 8)\<close> in variant B (header only).
\<close>

theorem asize_formula:
  "(unat n + 15 < 2 ^ 64 \<longrightarrow>
      int (unat (asize_A n)) = (if unat n \<le> 8 then 16 else 8 * \<lceil>(real (unat n) + 8) / 8\<rceil>)) \<and>
   (unat n + 11 < 2 ^ 64 \<longrightarrow>
      int (unat (asize_B n)) = (if unat n \<le> 8 then 16 else 8 * \<lceil>(real (unat n) + 4) / 8\<rceil>))"
proof (intro conjI impI)
  assume h: "unat n + 15 < 2 ^ 64"
  have "(real (unat n) + 8) / 8 = real (unat n + 8) / 8" by (simp del: of_nat_unat)
  then have "\<lceil>(real (unat n) + 8) / 8\<rceil> = int ((unat n + 15) div 8)"
    using ceil8 [of "unat n + 8"] by (simp add: add.assoc del: of_nat_unat)
  then show "int (unat (asize_A n)) = (if unat n \<le> 8 then 16 else 8 * \<lceil>(real (unat n) + 8) / 8\<rceil>)"
    by (simp add: asize_A_nat [OF h] del: of_nat_unat)
next
  assume h: "unat n + 11 < 2 ^ 64"
  have "(real (unat n) + 4) / 8 = real (unat n + 4) / 8" by (simp del: of_nat_unat)
  then have "\<lceil>(real (unat n) + 4) / 8\<rceil> = int ((unat n + 11) div 8)"
    using ceil8 [of "unat n + 4"] by (simp add: add.assoc del: of_nat_unat)
  then show "int (unat (asize_B n)) = (if unat n \<le> 8 then 16 else 8 * \<lceil>(real (unat n) + 4) / 8\<rceil>)"
    by (simp add: asize_B_nat [OF h] del: of_nat_unat)
qed

theorem asize_formula_witness:
  "unat (9 :: addr) + 15 < 2 ^ 64 \<and> int (unat (asize_A 9)) = 24 \<and>
   unat (9 :: addr) + 11 < 2 ^ 64 \<and> int (unat (asize_B 9)) = 16"
  using asize_formula [of 9] by simp

section \<open>The first extension of the heap (C4)\<close>

text \<open>
  C4 at the failing input, \<^verbatim>\<open>mm_init()\<close> on the fresh machine.  \<^verbatim>\<open>CHUNKSIZE\<close> is 896 (variant A)
  and 224 (variant B), but \<^verbatim>\<open>extend_heap(CHUNKSIZE/WSIZE)\<close> asks for 800 and 248 words: after
  a successful \<^verbatim>\<open>mm_init\<close> the first block is free and has 3200 bytes in variant A and 992
  bytes in variant B, and the heap has grown by that much beyond the initial layout.
\<close>

theorem init_plants_3200_and_992:
  "CHUNKSIZE_A = 896 \<and> CHUNKSIZE_div_WSIZE_A = 800 \<and>
   CHUNKSIZE_B = 224 \<and> CHUNKSIZE_div_WSIZE_B = 248 \<and>
   (mm_init_A heap0 \<bind> (\<lambda>(r, s). GET s (HDRP (heap_listp s + 8)) \<bind>
      (\<lambda>h. Some (r, h, mem_brk s)))) = Some (0, 3200, 0x1000 + 24 + 3200) \<and>
   (mm_init_B heap0 \<bind> (\<lambda>(r, s). GET s (HDRP (heap_listp s + 8)) \<bind>
      (\<lambda>h. Some (r, h AND NOT 2, mem_brk s)))) = Some (0, 992, 0x1000 + 112 + 992)"
  by (simp add: heap0_def run_A run_B cong: bind_weak_cong)

section \<open>The size classes of variant B (C5)\<close>

text \<open>
  C5 at the failing input \<open>s = 70000\<close>.  The smallest class whose upper bound is at least
  70000 is class 19 (bound \<^verbatim>\<open>LIST20\<close> = 131072, since \<^verbatim>\<open>LIST19\<close> = 65536 is too small), but
  \<^verbatim>\<open>list_entry\<close> returns class 23: the chain of comparisons stops at \<^verbatim>\<open>LIST19\<close> and never
  uses \<^verbatim>\<open>LIST20\<close> to \<^verbatim>\<open>LIST23\<close>.
\<close>

theorem list_entry_70000:
  "list_entry 70000 = 23 \<and> \<not> (70000 :: addr) \<le> LIST19 \<and> (70000 :: addr) \<le> LIST20"
  by (simp add: list_entry_def LIST_defs)

section \<open>Deleting from a free list (C9)\<close>

lemma byte_of_push_bit_zero:
  fixes x :: byte
  assumes "push_bit k (ucast x :: word32) = 0" "k \<le> 24"
  shows "x = 0"
proof (rule bit_word_eqI)
  fix n assume n: "n < LENGTH(8)"
  have "bit (push_bit k (ucast x :: word32)) (n + k) = bit x n"
    using n assms(2) by (auto simp: bit_simps)
  with assms(1) show "bit x n = bit (0 :: byte) n" by simp
qed

lemma load32_eq_0:
  "load32 m p = 0 \<longleftrightarrow> m p = 0 \<and> m (p + 1) = 0 \<and> m (p + 2) = 0 \<and> m (p + 3) = 0"
proof
  assume "load32 m p = 0"
  then have a: "(ucast (m p) :: word32) = 0" "push_bit 8 (ucast (m (p + 1)) :: word32) = 0"
     "push_bit 16 (ucast (m (p + 2)) :: word32) = 0" "push_bit 24 (ucast (m (p + 3)) :: word32) = 0"
    by (simp_all add: load32_def or_eq_0_iff)
  from a(1) have "push_bit 0 (ucast (m p) :: word32) = 0" by simp
  then have "m p = 0" by (rule byte_of_push_bit_zero) simp
  moreover from a(2) have "m (p + 1) = 0" by (rule byte_of_push_bit_zero) simp
  moreover from a(3) have "m (p + 2) = 0" by (rule byte_of_push_bit_zero) simp
  moreover from a(4) have "m (p + 3) = 0" by (rule byte_of_push_bit_zero) simp
  ultimately show "m p = 0 \<and> m (p + 1) = 0 \<and> m (p + 2) = 0 \<and> m (p + 3) = 0" by simp
next
  assume "m p = 0 \<and> m (p + 1) = 0 \<and> m (p + 2) = 0 \<and> m (p + 3) = 0"
  then show "load32 m p = 0" by (simp add: load32_def)
qed

lemma store32_zero_keeps_zero: "m x = 0 \<Longrightarrow> store32 q 0 m x = 0"
  by (simp add: store32_def)

lemma load32_store32_zero: "load32 m p = 0 \<Longrightarrow> load32 (store32 q 0 m) p = 0"
  by (simp add: load32_eq_0 store32_zero_keeps_zero)

lemma PUT_Some: "PUT q v s = Some t \<Longrightarrow> t = s\<lparr>mem := store32 q v (mem s)\<rparr>"
  by (simp add: PUT_def split: if_splits)

lemma GET_PUT_zero: "PUT q 0 s = Some t \<Longrightarrow> GET s p = Some 0 \<Longrightarrow> GET t p = Some 0"
  by (auto simp: GET_def in_heap_def load32_store32_zero dest!: PUT_Some split: if_splits)

lemma GET_PUT_apart:
  "PUT q v s = Some t \<Longrightarrow> 4 \<le> p - q \<Longrightarrow> 4 \<le> q - p \<Longrightarrow> GET t p = GET s p"
  by (auto simp: GET_def in_heap_def load32_store32_other dest!: PUT_Some)

lemma GET_PUT_defined: "PUT q v s = Some t \<Longrightarrow> GET s p = Some a \<Longrightarrow> \<exists>b. GET t p = Some b"
  by (auto simp: GET_def in_heap_def dest!: PUT_Some split: if_splits)

lemma PUT_free_listp: "PUT q v s = Some t \<Longrightarrow> free_listp t = free_listp s"
  by (auto dest!: PUT_Some)

lemma PUT_heap_listp: "PUT q v s = Some t \<Longrightarrow> heap_listp t = heap_listp s"
  by (auto dest!: PUT_Some)


lemma delete_A_refines:
  assumes ap: "4 \<le> (bp + 4) - free_listp s" "4 \<le> free_listp s - (bp + 4)"
  shows "freelist_delete_A bp s = freelist_delete_elseif_A bp s"
proof (cases "GET s bp")
  case None
  then show ?thesis
    by (simp add: freelist_delete_A_def freelist_delete_elseif_A_def and_also_def is_zero_def)
next
  case a: (Some a)
  show ?thesis
  proof (cases "GET s (bp + 4)")
    case None
    with a show ?thesis
      by (simp add: freelist_delete_A_def freelist_delete_elseif_A_def and_also_def is_zero_def
          non_zero_def WSIZE_def)
  next
    case b: (Some b)
    consider (only) "a = 0" "b = 0" | (last) "a = 0" "b \<noteq> 0"
      | (first) "a \<noteq> 0" "b = 0" | (middle) "a \<noteq> 0" "b \<noteq> 0" by blast
    then show ?thesis
    proof cases
      case only
      show ?thesis
      proof (cases "PUT (free_listp s) 0 s")
        case None
        with a b only show ?thesis
          by (simp add: freelist_delete_A_def freelist_delete_elseif_A_def and_also_def is_zero_def
              non_zero_def WSIZE_def)
      next
        case (Some t)
        have "GET t bp = Some 0" "GET t (bp + 4) = Some 0"
          using GET_PUT_zero [OF Some] a b only by simp_all
        with a b only Some show ?thesis
          by (simp add: freelist_delete_A_def freelist_delete_elseif_A_def and_also_def is_zero_def
              non_zero_def WSIZE_def)
      qed
    next
      case last
      show ?thesis
      proof (cases "PUT (ucast b + heap_listp s) 0 s")
        case None
        with a b last show ?thesis
          by (simp add: freelist_delete_A_def freelist_delete_elseif_A_def and_also_def is_zero_def
              non_zero_def WSIZE_def OFF_PTR_def)
      next
        case (Some t)
        have "GET t bp = Some 0"
          using GET_PUT_zero [OF Some] a last by simp
        with a b last Some show ?thesis
          by (simp add: freelist_delete_A_def freelist_delete_elseif_A_def and_also_def is_zero_def
              non_zero_def WSIZE_def OFF_PTR_def)
      qed
    next
      case first
      show ?thesis
      proof (cases "PUT (ucast a + heap_listp s + 4) 0 s")
        case None
        with a b first show ?thesis
          by (simp add: freelist_delete_A_def freelist_delete_elseif_A_def and_also_def is_zero_def
              non_zero_def WSIZE_def OFF_PTR_def)
      next
        case t: (Some t)
        from GET_PUT_defined [OF t a] obtain v where v: "GET t bp = Some v" by blast
        have tz: "GET t (bp + 4) = Some 0" using GET_PUT_zero [OF t] b first by simp
        have fl: "free_listp t = free_listp s" using t by (rule PUT_free_listp)
        show ?thesis
        proof (cases "PUT (free_listp s) v t")
          case None
          with a b first t v fl show ?thesis
            by (simp add: freelist_delete_A_def freelist_delete_elseif_A_def and_also_def is_zero_def
                non_zero_def WSIZE_def OFF_PTR_def)
        next
          case u: (Some u)
          from GET_PUT_defined [OF u v] obtain w where w: "GET u bp = Some w" by blast
          have "GET u (bp + 4) = GET t (bp + 4)" using u ap by (rule GET_PUT_apart)
          with tz have uz: "GET u (bp + 4) = Some 0" by simp
          from a b first t v fl u w uz show ?thesis
            by (simp add: freelist_delete_A_def freelist_delete_elseif_A_def and_also_def is_zero_def
                non_zero_def WSIZE_def OFF_PTR_def)
        qed
      qed
    next
      case middle
      with a b show ?thesis
        by (simp add: freelist_delete_A_def freelist_delete_elseif_A_def and_also_def is_zero_def
            non_zero_def WSIZE_def)
    qed
  qed
qed

lemma delete_B_refines:
  assumes l: "list_of s bp = Some l" and ap: "4 \<le> (bp + 4) - l" "4 \<le> l - (bp + 4)"
  shows "freelist_delete_B bp s = freelist_delete_elseif_B bp s"
proof (cases "GET s bp")
  case None
  then show ?thesis
    by (simp add: freelist_delete_B_def freelist_delete_elseif_B_def l and_also_def is_zero_def)
next
  case a: (Some a)
  show ?thesis
  proof (cases "GET s (bp + 4)")
    case None
    with a show ?thesis
      by (simp add: freelist_delete_B_def freelist_delete_elseif_B_def l and_also_def is_zero_def
          non_zero_def WSIZE_def)
  next
    case b: (Some b)
    consider (only) "a = 0" "b = 0" | (last) "a = 0" "b \<noteq> 0"
      | (first) "a \<noteq> 0" "b = 0" | (middle) "a \<noteq> 0" "b \<noteq> 0" by blast
    then show ?thesis
    proof cases
      case only
      show ?thesis
      proof (cases "PUT l 0 s")
        case None
        with a b only show ?thesis
          by (simp add: freelist_delete_B_def freelist_delete_elseif_B_def l and_also_def is_zero_def
              non_zero_def WSIZE_def)
      next
        case (Some t)
        have "GET t bp = Some 0" "GET t (bp + 4) = Some 0"
          using GET_PUT_zero [OF Some] a b only by simp_all
        with a b only Some show ?thesis
          by (simp add: freelist_delete_B_def freelist_delete_elseif_B_def l and_also_def is_zero_def
              non_zero_def WSIZE_def)
      qed
    next
      case last
      show ?thesis
      proof (cases "PUT (ucast b + heap_listp s) 0 s")
        case None
        with a b last show ?thesis
          by (simp add: freelist_delete_B_def freelist_delete_elseif_B_def l and_also_def is_zero_def
              non_zero_def WSIZE_def OFF_PTR_def)
      next
        case (Some t)
        have "GET t bp = Some 0"
          using GET_PUT_zero [OF Some] a last by simp
        with a b last Some show ?thesis
          by (simp add: freelist_delete_B_def freelist_delete_elseif_B_def l and_also_def is_zero_def
              non_zero_def WSIZE_def OFF_PTR_def)
      qed
    next
      case first
      show ?thesis
      proof (cases "PUT (ucast a + heap_listp s + 4) 0 s")
        case None
        with a b first show ?thesis
          by (simp add: freelist_delete_B_def freelist_delete_elseif_B_def l and_also_def is_zero_def
              non_zero_def WSIZE_def OFF_PTR_def)
      next
        case t: (Some t)
        from GET_PUT_defined [OF t a] obtain v where v: "GET t bp = Some v" by blast
        have tz: "GET t (bp + 4) = Some 0" using GET_PUT_zero [OF t] b first by simp
        have fl: True by simp
        show ?thesis
        proof (cases "PUT l v t")
          case None
          with a b first t v fl show ?thesis
            by (simp add: freelist_delete_B_def freelist_delete_elseif_B_def l and_also_def is_zero_def
                non_zero_def WSIZE_def OFF_PTR_def)
        next
          case u: (Some u)
          from GET_PUT_defined [OF u v] obtain w where w: "GET u bp = Some w" by blast
          have "GET u (bp + 4) = GET t (bp + 4)" using u ap by (rule GET_PUT_apart)
          with tz have uz: "GET u (bp + 4) = Some 0" by simp
          from a b first t v fl u w uz show ?thesis
            by (simp add: freelist_delete_B_def freelist_delete_elseif_B_def l and_also_def is_zero_def
                non_zero_def WSIZE_def OFF_PTR_def)
        qed
      qed
    next
      case middle
      with a b show ?thesis
        by (simp add: freelist_delete_B_def freelist_delete_elseif_B_def l and_also_def is_zero_def
            non_zero_def WSIZE_def)
    qed
  qed
qed


text \<open>
  C9.  The deletion routine of the source, with four independent \<^verbatim>\<open>if\<close> statements, leaves the
  same state (or fails in the same way) as the routine with mutually exclusive \<^verbatim>\<open>else if\<close>
  branches, in both variants.  The only thing needed is that the head word of the list does not
  overlap the \<^verbatim>\<open>prev\<close> field \<open>bp + 4\<close> of the block, which holds for every block linked in a
  free list, since the head words lie before the prologue.  In variant B the head word \<open>l\<close> is
  the one selected by the block's size.
\<close>

theorem freelist_delete_refines:
  "(4 \<le> (bp + 4) - free_listp s \<and> 4 \<le> free_listp s - (bp + 4) \<longrightarrow>
      freelist_delete_A bp s = freelist_delete_elseif_A bp s) \<and>
   (list_of s bp = Some l \<and> 4 \<le> (bp + 4) - l \<and> 4 \<le> l - (bp + 4) \<longrightarrow>
      freelist_delete_B bp s = freelist_delete_elseif_B bp s)"
  using delete_A_refines [of bp s] delete_B_refines [of s bp l] by blast

theorem freelist_delete_refines_witness:
  "4 \<le> (0x1018 + 4) - free_listp heapW \<and> 4 \<le> free_listp heapW - (0x1018 + 4) \<and>
   freelist_delete_A 0x1018 heapW = freelist_delete_elseif_A 0x1018 heapW \<and>
   list_of heapW 0x1018 = Some 0x100C \<and>
   freelist_delete_B 0x1018 heapW = freelist_delete_elseif_B 0x1018 heapW \<and>
   freelist_delete_elseif_A 0x1018 heapW \<noteq> None"
proof -
  have l: "list_of heapW 0x1018 = Some 0x100C"
    by (simp add: heapW_def run_B cong: bind_weak_cong)
  have f: "free_listp heapW = 0x1004" by (simp add: heapW_def)
  have n: "freelist_delete_elseif_A 0x1018 heapW \<noteq> None"
    by (simp add: heapW_def freelist_delete_elseif_A_def run_macros cong: bind_weak_cong)
  show ?thesis
    using freelist_delete_refines [of "0x1018" heapW "0x100C"] l n by (simp add: f)
qed


section \<open>Lazy initialisation (C10)\<close>

text \<open>Only \<^verbatim>\<open>mm_init\<close> assigns the global \<^verbatim>\<open>heap_listp\<close>, and it leaves it non-null.\<close>

lemma PTR_OFF_heap_listp: "PTR_OFF p q s = Some t \<Longrightarrow> heap_listp t = heap_listp s"
  by (auto simp: PTR_OFF_def dest: PUT_heap_listp)

lemma PUT_HD_heap_listp: "PUT_HD p v s = Some t \<Longrightarrow> heap_listp t = heap_listp s"
  by (auto simp: PUT_HD_def bind_eq_Some_conv dest: PUT_heap_listp)

lemma PREV_ALLOC_heap_listp: "PREV_ALLOC p s = Some t \<Longrightarrow> heap_listp t = heap_listp s"
  by (auto simp: PREV_ALLOC_def bind_eq_Some_conv dest: PUT_heap_listp)

lemma PREV_UNALLOC_heap_listp: "PREV_UNALLOC p s = Some t \<Longrightarrow> heap_listp t = heap_listp s"
  by (auto simp: PREV_UNALLOC_def bind_eq_Some_conv dest: PUT_heap_listp)

lemma freelist_insert_A_heap_listp:
  "freelist_insert_A bp s = Some t \<Longrightarrow> heap_listp t = heap_listp s"
  by (auto simp: freelist_insert_A_def bind_eq_Some_conv split: if_splits
      dest!: PUT_heap_listp PTR_OFF_heap_listp)


lemma keeps_hl_bind: "(\<And>v. m = Some v \<Longrightarrow> keeps_hl h (f v)) \<Longrightarrow> keeps_hl h (Option.bind m f)"
  by (cases m) (auto simp: keeps_hl_def)

lemma keeps_hl2_bind: "(\<And>v. m = Some v \<Longrightarrow> keeps_hl2 h (f v)) \<Longrightarrow> keeps_hl2 h (Option.bind m f)"
  by (cases m) (auto simp: keeps_hl2_def)

lemma keeps_hl_if: "(c \<Longrightarrow> keeps_hl h a) \<Longrightarrow> (\<not> c \<Longrightarrow> keeps_hl h b) \<Longrightarrow> keeps_hl h (if c then a else b)"
  by simp

lemma keeps_hl2_if: "(c \<Longrightarrow> keeps_hl2 h a) \<Longrightarrow> (\<not> c \<Longrightarrow> keeps_hl2 h b) \<Longrightarrow> keeps_hl2 h (if c then a else b)"
  by simp

lemma keeps_hl_Some: "heap_listp s = h \<Longrightarrow> keeps_hl h (Some s)"
  by (simp add: keeps_hl_def)

lemma keeps_hl2_Some: "heap_listp s = h \<Longrightarrow> keeps_hl2 h (Some (x, s))"
  by (simp add: keeps_hl2_def)

lemma keeps_hl_PUT: "heap_listp s = h \<Longrightarrow> keeps_hl h (PUT p v s)"
  by (auto simp: keeps_hl_def dest: PUT_heap_listp)

lemma keeps_hl_PTR_OFF: "heap_listp s = h \<Longrightarrow> keeps_hl h (PTR_OFF p q s)"
  by (auto simp: keeps_hl_def dest: PTR_OFF_heap_listp)

lemma keeps_hlD: "keeps_hl h r \<Longrightarrow> r = Some t \<Longrightarrow> heap_listp t = h"
  by (simp add: keeps_hl_def)

lemma keeps_hl2D: "keeps_hl2 h r \<Longrightarrow> r = Some (x, t) \<Longrightarrow> heap_listp t = h"
  by (simp add: keeps_hl2_def)

lemma if_PUT_heap_listp:
  "(if c then PUT p v s else Some s) = Some t \<Longrightarrow> heap_listp t = heap_listp s"
  by (auto split: if_splits dest: PUT_heap_listp)

lemma freelist_delete_A_keeps: "heap_listp s = h \<Longrightarrow> keeps_hl h (freelist_delete_A bp s)"
  unfolding freelist_delete_A_def
  apply (intro keeps_hl_bind keeps_hl_if keeps_hl_Some keeps_hl_PUT)
  apply (auto simp: bind_eq_Some_conv split: if_splits dest!: PUT_heap_listp)
  done


lemma freelist_delete_A_heap_listp:
  "freelist_delete_A bp s = Some t \<Longrightarrow> heap_listp t = heap_listp s"
  using freelist_delete_A_keeps [OF refl] by (rule keeps_hlD)

lemma coalesce_A_heap_listp:
  "coalesce_A bp s = Some (bp', t) \<Longrightarrow> heap_listp t = heap_listp s"
proof -
  have "keeps_hl2 (heap_listp s) (coalesce_A bp s)"
    unfolding coalesce_A_def Let_def
    apply (intro keeps_hl2_bind keeps_hl2_if keeps_hl2_Some)
       apply (auto dest!: PUT_heap_listp freelist_insert_A_heap_listp freelist_delete_A_heap_listp)
    done
  then show "coalesce_A bp s = Some (bp', t) \<Longrightarrow> heap_listp t = heap_listp s"
    by (rule keeps_hl2D)
qed

lemma mem_sbrk_heap_listp: "mem_sbrk n s = (p, t) \<Longrightarrow> heap_listp t = heap_listp s"
  by (auto simp: mem_sbrk_def split: if_splits)

lemma extend_heap_A_heap_listp:
  "extend_heap_A w s = Some (bp, t) \<Longrightarrow> heap_listp t = heap_listp s"
  by (auto simp: extend_heap_A_def Let_def bind_eq_Some_conv split: prod.splits if_splits
      dest!: PUT_heap_listp coalesce_A_heap_listp mem_sbrk_heap_listp)

lemma brk_plus_nonzero:
  fixes p m :: addr
  assumes "unat p + k \<le> unat m" "0 < j" "j \<le> k"
  shows "p + of_nat j \<noteq> 0"
proof -
  have "unat m < 2 ^ 64" using unsigned_less [of m, where 'a = nat] by simp
  with assms have "unat p + j < 2 ^ 64" by simp
  then have "unat (p + of_nat j) = unat p + j" by (rule unat_plus_small)
  with assms(2) show ?thesis by (auto simp: unat_eq_zero [symmetric] simp del: unat_eq_zero)
qed

lemma mm_init_layout_A_nonzero:
  "mm_init_layout_A s = Some (r, t) \<Longrightarrow> heap_listp t \<noteq> 0"
  using brk_plus_nonzero [of "mem_brk s" 24 "mem_max_addr s" 16]
  by (auto simp: mm_init_layout_A_def mem_sbrk_def Let_def WSIZE_def bind_eq_Some_conv
      split: if_splits dest!: PUT_heap_listp)

lemma mm_init_A_nonzero: "mm_init_A s = Some (r, t) \<Longrightarrow> heap_listp t \<noteq> 0"
  by (auto simp: mm_init_A_def bind_eq_Some_conv split: if_splits
      dest!: mm_init_layout_A_nonzero extend_heap_A_heap_listp)

lemma lazy_malloc_A:
  assumes "heap_listp s = 0"
  shows "mm_malloc_A n s = mm_init_A s \<bind> (\<lambda>(r, s'). mm_malloc_A n s')"
proof (cases "mm_init_A s")
  case None
  with assms show ?thesis by (simp add: mm_malloc_A_def lazy_init_A_def)
next
  case (Some rs)
  obtain r s' where rs: "rs = (r, s')" by (cases rs)
  with Some have "heap_listp s' \<noteq> 0" by (auto dest: mm_init_A_nonzero)
  with Some rs assms show ?thesis by (simp add: mm_malloc_A_def lazy_init_A_def)
qed

lemma lazy_free_A:
  assumes "heap_listp s = 0" "bp \<noteq> 0"
  shows "mm_free_A bp s =
         GET_SIZE s (HDRP bp) \<bind> (\<lambda>sz. mm_init_A s \<bind> (\<lambda>(r, s'). free_block_A bp (ucast sz) s'))"
  using assms
  by (cases "GET_SIZE s (HDRP bp)"; cases "mm_init_A s")
     (auto simp: mm_free_A_def lazy_init_A_def)

lemma init_then_free_A:
  assumes "heap_listp s = 0" "bp \<noteq> 0"
    and kept: "map_option (\<lambda>(r, s'). GET_SIZE s' (HDRP bp)) (mm_init_A s) =
               map_option (\<lambda>(r, s'). GET_SIZE s (HDRP bp)) (mm_init_A s)"
  shows "mm_free_A bp s = mm_init_A s \<bind> (\<lambda>(r, s'). mm_free_A bp s')"
proof (cases "mm_init_A s")
  case None
  with assms(1,2) show ?thesis
    by (cases "GET_SIZE s (HDRP bp)") (simp_all add: mm_free_A_def lazy_init_A_def)
next
  case (Some rs)
  obtain r s' where rs: "rs = (r, s')" by (cases rs)
  with Some have nz: "heap_listp s' \<noteq> 0" by (auto dest: mm_init_A_nonzero)
  from kept Some rs have "GET_SIZE s' (HDRP bp) = GET_SIZE s (HDRP bp)" by simp
  with Some rs assms(1,2) nz show ?thesis by (simp add: mm_free_A_def lazy_init_A_def)
qed


lemma freelist_insert_B_heap_listp:
  "freelist_insert_B bp s = Some t \<Longrightarrow> heap_listp t = heap_listp s"
  by (auto simp: freelist_insert_B_def bind_eq_Some_conv split: if_splits
      dest!: PUT_heap_listp PTR_OFF_heap_listp)

lemma freelist_delete_B_heap_listp:
  "freelist_delete_B bp s = Some t \<Longrightarrow> heap_listp t = heap_listp s"
proof -
  have "keeps_hl (heap_listp s) (freelist_delete_B bp s)"
    unfolding freelist_delete_B_def
    apply (intro keeps_hl_bind keeps_hl_if keeps_hl_Some keeps_hl_PUT)
                apply (auto simp: bind_eq_Some_conv split: if_splits dest!: PUT_heap_listp)
    done
  then show "freelist_delete_B bp s = Some t \<Longrightarrow> heap_listp t = heap_listp s"
    by (rule keeps_hlD)
qed

lemma coalesce_B_heap_listp:
  "coalesce_B bp s = Some (bp', t) \<Longrightarrow> heap_listp t = heap_listp s"
proof -
  have "keeps_hl2 (heap_listp s) (coalesce_B bp s)"
    unfolding coalesce_B_def Let_def
    apply (intro keeps_hl2_bind keeps_hl2_if keeps_hl2_Some)
       apply (auto dest!: PUT_heap_listp PUT_HD_heap_listp freelist_insert_B_heap_listp
        freelist_delete_B_heap_listp)
    done
  then show "coalesce_B bp s = Some (bp', t) \<Longrightarrow> heap_listp t = heap_listp s"
    by (rule keeps_hl2D)
qed

lemma extend_heap_B_heap_listp:
  "extend_heap_B w s = Some (bp, t) \<Longrightarrow> heap_listp t = heap_listp s"
  by (auto simp: extend_heap_B_def Let_def bind_eq_Some_conv split: prod.splits if_splits
      dest!: PUT_heap_listp PUT_HD_heap_listp coalesce_B_heap_listp mem_sbrk_heap_listp)

lemma init_free_list_heap_listp:
  "init_free_list i s = Some t \<Longrightarrow> heap_listp t = heap_listp s"
proof (induction i s rule: init_free_list.induct)
  case (1 i s)
  show ?case
  proof (cases "i < LIST_NUM")
    case False
    with "1.prems" show ?thesis by (subst (asm) init_free_list.simps) simp
  next
    case True
    from "1.prems" True obtain y
      where y: "PUT (free_listp s + of_nat i * WSIZE) 0 s = Some y"
        and r: "init_free_list (i + 1) y = Some t"
      by (subst (asm) init_free_list.simps) (auto simp: bind_eq_Some_conv)
    from "1.IH" [OF True y r] PUT_heap_listp [OF y] show ?thesis by simp
  qed
qed

lemma mm_init_layout_B_nonzero:
  "mm_init_layout_B s = Some (r, t) \<Longrightarrow> heap_listp t \<noteq> 0"
  using brk_plus_nonzero [of "mem_brk s" 112 "mem_max_addr s" 104]
  by (auto simp: mm_init_layout_B_def mem_sbrk_def Let_def WSIZE_def LIST_NUM_def bind_eq_Some_conv
      split: if_splits dest!: PUT_heap_listp PREV_ALLOC_heap_listp init_free_list_heap_listp)

lemma mm_init_B_nonzero: "mm_init_B s = Some (r, t) \<Longrightarrow> heap_listp t \<noteq> 0"
  by (auto simp: mm_init_B_def bind_eq_Some_conv split: if_splits
      dest!: mm_init_layout_B_nonzero extend_heap_B_heap_listp)

lemma lazy_malloc_B:
  assumes "heap_listp s = 0"
  shows "mm_malloc_B n s = mm_init_B s \<bind> (\<lambda>(r, s'). mm_malloc_B n s')"
proof (cases "mm_init_B s")
  case None
  with assms show ?thesis by (simp add: mm_malloc_B_def lazy_init_B_def)
next
  case (Some rs)
  obtain r s' where rs: "rs = (r, s')" by (cases rs)
  with Some have "heap_listp s' \<noteq> 0" by (auto dest: mm_init_B_nonzero)
  with Some rs assms show ?thesis by (simp add: mm_malloc_B_def lazy_init_B_def)
qed

lemma lazy_free_B:
  assumes "heap_listp s = 0" "bp \<noteq> 0"
  shows "mm_free_B bp s =
         GET_SIZE s (HDRP bp) \<bind> (\<lambda>sz. mm_init_B s \<bind> (\<lambda>(r, s'). free_block_B bp (ucast sz) s'))"
  using assms
  by (cases "GET_SIZE s (HDRP bp)"; cases "mm_init_B s")
     (auto simp: mm_free_B_def lazy_init_B_def)

lemma init_then_free_B:
  assumes "heap_listp s = 0" "bp \<noteq> 0"
    and kept: "map_option (\<lambda>(r, s'). GET_SIZE s' (HDRP bp)) (mm_init_B s) =
               map_option (\<lambda>(r, s'). GET_SIZE s (HDRP bp)) (mm_init_B s)"
  shows "mm_free_B bp s = mm_init_B s \<bind> (\<lambda>(r, s'). mm_free_B bp s')"
proof (cases "mm_init_B s")
  case None
  with assms(1,2) show ?thesis
    by (cases "GET_SIZE s (HDRP bp)") (simp_all add: mm_free_B_def lazy_init_B_def)
next
  case (Some rs)
  obtain r s' where rs: "rs = (r, s')" by (cases rs)
  with Some have nz: "heap_listp s' \<noteq> 0" by (auto dest: mm_init_B_nonzero)
  from kept Some rs have "GET_SIZE s' (HDRP bp) = GET_SIZE s (HDRP bp)" by simp
  with Some rs assms(1,2) nz show ?thesis by (simp add: mm_free_B_def lazy_init_B_def)
qed

text \<open>
  C10.  When the global \<^verbatim>\<open>heap_listp\<close> is still null, \<^verbatim>\<open>mm_malloc\<close> behaves as \<^verbatim>\<open>mm_init\<close>
  followed by \<^verbatim>\<open>mm_malloc\<close> (whose own check then finds the pointer set, also when the
  initialisation failed), in both variants.  \<^verbatim>\<open>mm_free\<close> of a non-null pointer makes the same
  check: it reads the block size, runs \<^verbatim>\<open>mm_init\<close> and then releases the block in the
  initialised heap.  Whenever the header of the block reads after \<^verbatim>\<open>mm_init\<close> as it read
  before, this is \<^verbatim>\<open>mm_init\<close> followed by \<^verbatim>\<open>mm_free\<close>.
\<close>

theorem lazy_init:
  "(heap_listp s = 0 \<longrightarrow>
      mm_malloc_A n s = mm_init_A s \<bind> (\<lambda>(r, s'). mm_malloc_A n s') \<and>
      mm_malloc_B n s = mm_init_B s \<bind> (\<lambda>(r, s'). mm_malloc_B n s')) \<and>
   (heap_listp s = 0 \<and> bp \<noteq> 0 \<longrightarrow>
      mm_free_A bp s =
        GET_SIZE s (HDRP bp) \<bind>
          (\<lambda>sz. mm_init_A s \<bind> (\<lambda>(r, s'). free_block_A bp (ucast sz) s')) \<and>
      mm_free_B bp s =
        GET_SIZE s (HDRP bp) \<bind>
          (\<lambda>sz. mm_init_B s \<bind> (\<lambda>(r, s'). free_block_B bp (ucast sz) s'))) \<and>
   (heap_listp s = 0 \<and> bp \<noteq> 0 \<and>
    map_option (\<lambda>(r, s'). GET_SIZE s' (HDRP bp)) (mm_init_A s) =
      map_option (\<lambda>(r, s'). GET_SIZE s (HDRP bp)) (mm_init_A s) \<longrightarrow>
      mm_free_A bp s = mm_init_A s \<bind> (\<lambda>(r, s'). mm_free_A bp s')) \<and>
   (heap_listp s = 0 \<and> bp \<noteq> 0 \<and>
    map_option (\<lambda>(r, s'). GET_SIZE s' (HDRP bp)) (mm_init_B s) =
      map_option (\<lambda>(r, s'). GET_SIZE s (HDRP bp)) (mm_init_B s) \<longrightarrow>
      mm_free_B bp s = mm_init_B s \<bind> (\<lambda>(r, s'). mm_free_B bp s'))"
  using lazy_malloc_A [of s n] lazy_malloc_B [of s n] lazy_free_A [of s bp] lazy_free_B [of s bp]
    init_then_free_A [of s bp] init_then_free_B [of s bp]
  by blast

text \<open>
  On the fresh machine: \<^verbatim>\<open>mm_malloc(1)\<close> initialises the heap and returns the first payload;
  \<^verbatim>\<open>mm_free\<close> of the address \<open>0x3000\<close>, which lies in the memory of the substrate behind
  everything that \<^verbatim>\<open>mm_init\<close> writes, reads a header of 0, initialises the heap and returns.
\<close>

theorem lazy_init_witness:
  "heap_listp heap0 = 0 \<and> (0x3000 :: addr) \<noteq> 0 \<and>
   map_option (\<lambda>(r, s'). GET_SIZE s' (HDRP 0x3000)) (mm_init_A heap0) = Some (Some 0) \<and>
   map_option (\<lambda>(r, s'). GET_SIZE heap0 (HDRP 0x3000)) (mm_init_A heap0) = Some (Some 0) \<and>
   map_option (\<lambda>(r, s'). GET_SIZE s' (HDRP 0x3000)) (mm_init_B heap0) = Some (Some 0) \<and>
   map_option (\<lambda>(r, s'). GET_SIZE heap0 (HDRP 0x3000)) (mm_init_B heap0) = Some (Some 0) \<and>
   mm_malloc_A 1 heap0 = mm_init_A heap0 \<bind> (\<lambda>(r, s'). mm_malloc_A 1 s') \<and>
   mm_malloc_B 1 heap0 = mm_init_B heap0 \<bind> (\<lambda>(r, s'). mm_malloc_B 1 s') \<and>
   mm_free_A 0x3000 heap0 =
     GET_SIZE heap0 (HDRP 0x3000) \<bind>
       (\<lambda>sz. mm_init_A heap0 \<bind> (\<lambda>(r, s'). free_block_A 0x3000 (ucast sz) s')) \<and>
   mm_free_B 0x3000 heap0 =
     GET_SIZE heap0 (HDRP 0x3000) \<bind>
       (\<lambda>sz. mm_init_B heap0 \<bind> (\<lambda>(r, s'). free_block_B 0x3000 (ucast sz) s')) \<and>
   mm_free_A 0x3000 heap0 = mm_init_A heap0 \<bind> (\<lambda>(r, s'). mm_free_A 0x3000 s') \<and>
   mm_free_B 0x3000 heap0 = mm_init_B heap0 \<bind> (\<lambda>(r, s'). mm_free_B 0x3000 s') \<and>
   map_option fst (mm_malloc_A 1 heap0) = Some 0x1018 \<and>
   map_option fst (mm_malloc_B 1 heap0) = Some 0x1070 \<and>
   map_option heap_listp (mm_free_A 0x3000 heap0) = Some 0x1010 \<and>
   map_option heap_listp (mm_free_B 0x3000 heap0) = Some 0x1068"
proof -
  have h: "heap_listp heap0 = 0" by (simp add: heap0_def)
  have a: "map_option fst (mm_malloc_A 1 heap0) = Some 0x1018"
    by (simp add: heap0_def run_A cong: bind_weak_cong)
  have b: "map_option fst (mm_malloc_B 1 heap0) = Some 0x1070"
    by (simp add: heap0_def run_B cong: bind_weak_cong)
  have ka: "map_option (\<lambda>(r, s'). GET_SIZE s' (HDRP 0x3000)) (mm_init_A heap0) = Some (Some 0)"
    by (simp add: heap0_def run_A cong: bind_weak_cong)
  have ka0: "map_option (\<lambda>(r, s'). GET_SIZE heap0 (HDRP 0x3000)) (mm_init_A heap0) = Some (Some 0)"
    by (simp add: heap0_def run_A cong: bind_weak_cong)
  have kb: "map_option (\<lambda>(r, s'). GET_SIZE s' (HDRP 0x3000)) (mm_init_B heap0) = Some (Some 0)"
    by (simp add: heap0_def run_B cong: bind_weak_cong)
  have kb0: "map_option (\<lambda>(r, s'). GET_SIZE heap0 (HDRP 0x3000)) (mm_init_B heap0) = Some (Some 0)"
    by (simp add: heap0_def run_B cong: bind_weak_cong)
  have fa: "map_option heap_listp (mm_free_A 0x3000 heap0) = Some 0x1010"
    by (simp add: heap0_def run_A cong: bind_weak_cong)
  have fb: "map_option heap_listp (mm_free_B 0x3000 heap0) = Some 0x1068"
    by (simp add: heap0_def run_B cong: bind_weak_cong)
  have nz: "(0x3000 :: addr) \<noteq> 0" by simp
  have ea: "map_option (\<lambda>(r, s'). GET_SIZE s' (HDRP 0x3000)) (mm_init_A heap0) =
            map_option (\<lambda>(r, s'). GET_SIZE heap0 (HDRP 0x3000)) (mm_init_A heap0)"
    by (simp only: ka ka0)
  have eb: "map_option (\<lambda>(r, s'). GET_SIZE s' (HDRP 0x3000)) (mm_init_B heap0) =
            map_option (\<lambda>(r, s'). GET_SIZE heap0 (HDRP 0x3000)) (mm_init_B heap0)"
    by (simp only: kb kb0)
  from lazy_init [of heap0 1 "0x3000"] h nz ea eb a b ka ka0 kb kb0 fa fb show ?thesis by blast
qed

section \<open>What realloc copies (C3)\<close>

lemma load32_copy_inside:
  fixes q dst src n :: addr
  assumes "q - dst < n" "q - dst + 1 < n" "q - dst + 2 < n" "q - dst + 3 < n"
  shows "load32 (copy_bytes dst src n m) q = load32 m (src + (q - dst))"
proof -
  have e: "q + 1 - dst = q - dst + 1" "q + 2 - dst = q - dst + 2" "q + 3 - dst = q - dst + 3"
    by simp_all
  show ?thesis using assms by (simp add: load32_def copy_bytes_def e add.assoc)
qed

lemma load32_copy_outside:
  fixes q dst src n :: addr
  assumes "\<not> q - dst < n" "\<not> q - dst + 1 < n" "\<not> q - dst + 2 < n" "\<not> q - dst + 3 < n"
  shows "load32 (copy_bytes dst src n m) q = load32 m q"
proof -
  have e: "q + 1 - dst = q - dst + 1" "q + 2 - dst = q - dst + 2" "q + 3 - dst = q - dst + 3"
    by simp_all
  show ?thesis using assms by (simp add: load32_def copy_bytes_def e)
qed

lemmas run_copy =
  memcpy_def load32_copy_inside load32_copy_outside mm_realloc_A_def mm_realloc_B_def

text \<open>
  C3 at the failing input: \<^verbatim>\<open>mm_init(); p = mm_malloc(8); q = mm_realloc(p, 64)\<close> on the fresh,
  zero-filled machine.  The old block has 16 bytes; its payload is the 8 bytes from \<open>p\<close> on in
  variant A (header and footer) and the 12 bytes from \<open>p\<close> on in variant B (header only).
  \<^verbatim>\<open>mm_realloc\<close> copies \<open>min(64, 16) = 16\<close> bytes, the whole block size.  In variant A the word
  at \<open>q + 8\<close> of the new payload is then the old block's footer (17, size 16 and allocated)
  and the word at \<open>q + 12\<close> is the header of the new block itself (73, which sits right
  behind the old block); in variant B the word at \<open>q + 12\<close> is that header (75).  Nothing
  else ever writes at these addresses, which hold 0 before.
\<close>

theorem realloc_copies_block_size:
  "(mm_init_A heap0 \<bind> (\<lambda>(r, s1). mm_malloc_A 8 s1 \<bind> (\<lambda>(p, s2).
      GET_SIZE s2 (HDRP p) \<bind> (\<lambda>old. mm_realloc_A p 64 s2 \<bind> (\<lambda>(q, s3).
        Some (p, old, q, GET s2 (q + 8), GET s2 (q + 12), GET s3 (q + 8), GET s3 (q + 12)))))))
     = Some (0x1018, 16, 0x1028, Some 0, Some 0, Some 17, Some 73) \<and>
   (mm_init_B heap0 \<bind> (\<lambda>(r, s1). mm_malloc_B 8 s1 \<bind> (\<lambda>(p, s2).
      GET_SIZE s2 (HDRP p) \<bind> (\<lambda>old. mm_realloc_B p 64 s2 \<bind> (\<lambda>(q, s3).
        Some (p, old, q, GET s2 (q + 12), GET s3 (q + 12)))))))
     = Some (0x1070, 16, 0x1080, Some 0, Some 75)"
  by (simp add: heap0_def run_A run_B run_copy cong: bind_weak_cong)

section \<open>calloc when the allocation fails (C6)\<close>

text \<open>
  C6 at the failing input: \<^verbatim>\<open>calloc(1, 2000000)\<close> on the fresh machine, whose substrate has room
  for one megabyte only.  \<^verbatim>\<open>mm_malloc(2000000)\<close> returns the null pointer, and \<^verbatim>\<open>calloc\<close> then
  calls \<^verbatim>\<open>memset(NULL, 0, 2000000)\<close>: it does not return null, it writes from address 0 on,
  outside the memory of the substrate.
\<close>

theorem calloc_null_memset:
  "map_option fst (mm_malloc_A (1 * 2000000) heap0) = Some 0 \<and>
   calloc_A 1 2000000 heap0 = None \<and>
   map_option fst (mm_malloc_B (1 * 2000000) heap0) = Some 0 \<and>
   calloc_B 1 2000000 heap0 = None"
  by (simp add: heap0_def run_A run_B calloc_A_def calloc_B_def memset_def cong: bind_weak_cong)

section \<open>Adjacent free blocks (C1)\<close>

text \<open>
  C1 at a failing input, in each variant.  Case 2 of \<^verbatim>\<open>coalesce\<close> (left neighbour allocated,
  right neighbour free) merges the right neighbour into the block but never calls
  \<^verbatim>\<open>freelist_delete\<close> on it, as case 4 does: the absorbed block stays in its free list.

  Variant B: \<^verbatim>\<open>mm_init(); p = mm_malloc(500); mm_free(p); q = mm_malloc(16); r = mm_malloc(5000)\<close>.
  All three calls return a payload.  Afterwards the first block behind the prologue (payload
  \<open>0x1070\<close>) is free and has 992 bytes, and its physical successor (payload \<open>0x1450\<close>) is
  free too and has 5008 bytes, so it is not the epilogue.  The payload \<open>q = 0x1268\<close> lies
  inside the free block at \<open>0x1070\<close>.

  Variant A: \<^verbatim>\<open>mm_init(); p = mm_malloc(16); mm_free(p); q = mm_malloc(3000); r = mm_malloc(1000);
  t = mm_malloc(5000)\<close>.  Afterwards the block at \<open>0x1BD8\<close> is free (192 bytes) and its
  physical successor at \<open>0x1C98\<close> is free (5008 bytes).  The payload \<open>r = 0x1030\<close> lies
  inside the allocated block of \<open>q = 0x1018\<close>.
\<close>

theorem adjacent_free_blocks:
  "(mm_init_B heap0 \<bind> (\<lambda>(i, s1). mm_malloc_B 500 s1 \<bind> (\<lambda>(p, s2). mm_free_B p s2 \<bind>
     (\<lambda>s3. mm_malloc_B 16 s3 \<bind> (\<lambda>(q, s4). mm_malloc_B 5000 s4 \<bind> (\<lambda>(r, s).
       Some (p, q, r, NEXT_BLKP s (heap_listp s),
             GET_ALLOC s (HDRP 0x1070), GET_SIZE s (HDRP 0x1070), NEXT_BLKP s 0x1070,
             GET_ALLOC s (HDRP 0x1450), GET_SIZE s (HDRP 0x1450))))))))
     = Some (0x1070, 0x1268, 0x1280, Some 0x1070,
             Some 0, Some 992, Some 0x1450, Some 0, Some 5008) \<and>
   (mm_init_A heap0 \<bind> (\<lambda>(i, s1). mm_malloc_A 16 s1 \<bind> (\<lambda>(p, s2). mm_free_A p s2 \<bind>
     (\<lambda>s3. mm_malloc_A 3000 s3 \<bind> (\<lambda>(q, s4). mm_malloc_A 1000 s4 \<bind> (\<lambda>(r, s5).
       mm_malloc_A 5000 s5 \<bind> (\<lambda>(t, s).
       Some (p, q, r, t, NEXT_BLKP s (heap_listp s), NEXT_BLKP s 0x1018,
             GET_ALLOC s (HDRP 0x1BD8), GET_SIZE s (HDRP 0x1BD8), NEXT_BLKP s 0x1BD8,
             GET_ALLOC s (HDRP 0x1C98), GET_SIZE s (HDRP 0x1C98)))))))))
     = Some (0x1018, 0x1018, 0x1030, 0x1420, Some 0x1018, Some 0x1BD8,
             Some 0, Some 192, Some 0x1C98, Some 0, Some 5008)"
  by (simp add: heap0_def run_A run_B cong: bind_weak_cong)

section \<open>An allocation that never returns (C7)\<close>

text \<open>The list walk does not return on a block that is its own successor and is too small.\<close>

lemma self_loop_diverges:
  assumes "bp \<noteq> 0" "GET_SIZE s (HDRP bp) = Some sz" "\<not> asize \<le> ucast sz"
    "GET s bp = Some n" "n \<noteq> 0" "OFF_PTR s bp = Some bp"
  shows "first_fit_loop s asize bp = None"
proof (rule ccontr)
  assume "first_fit_loop s asize bp \<noteq> None"
  then obtain r where r: "first_fit_loop s asize bp = Some r" by auto
  have "\<not> (s = s \<and> asize = asize \<and> bp = bp)"
  proof (rule first_fit_loop.raw_induct
      [where P = "\<lambda>s' a' bp' r'. \<not> (s' = s \<and> a' = asize \<and> bp' = bp)"
         and s = s and asize = asize and bp = bp and y = r])
    fix f :: "heap \<Rightarrow> addr \<Rightarrow> addr \<Rightarrow> addr option" and s' a' bp' r'
    assume IH: "\<And>a b c y. f a b c = Some y \<Longrightarrow> \<not> (a = s \<and> b = asize \<and> c = bp)"
    assume body:
      "(if bp' = 0 then Some 0
        else GET_SIZE s' (HDRP bp') \<bind>
             (\<lambda>sz. if a' \<le> ucast sz then Some bp'
                   else GET s' bp' \<bind>
                        (\<lambda>next. if next = 0 then Some 0
                                else OFF_PTR s' bp' \<bind> f s' a'))) = Some r'"
    show "\<not> (s' = s \<and> a' = asize \<and> bp' = bp)"
    proof
      assume "s' = s \<and> a' = asize \<and> bp' = bp"
      with body assms have "f s asize bp = Some r'" by simp
      then show False using IH by blast
    qed
  next
    show "first_fit_loop s asize bp = Some r" by (rule r)
  qed
  then show False by simp
qed

lemma hang_obs:
  "hang_prefix_A \<bind> (\<lambda>s. Some (heap_listp s, free_listp s, GET s (free_listp s),
      GET_SIZE s (HDRP 0x1030), GET s 0x1030)) = Some (0x1010, 0x1004, Some 0x20, Some 3176, Some 0x20)"
  by (simp add: hang_prefix_A_def heap0_def run_A cong: bind_weak_cong)

lemma malloc_A_hangs:
  assumes "hang_prefix_A = Some s"
  shows "mm_malloc_A 5000 s = None"
proof -
  have o: "heap_listp s = 0x1010" "free_listp s = 0x1004"
    "GET s 0x1004 = Some 0x20" "GET_SIZE s (HDRP 0x1030) = Some 3176" "GET s 0x1030 = Some 0x20"
    using hang_obs by (auto simp: assms)
  have off: "OFF_PTR s 0x1004 = Some 0x1030" "OFF_PTR s 0x1030 = Some 0x1030"
    using o by (simp_all add: OFF_PTR_def)
  have "first_fit_loop s 5008 0x1030 = None"
    by (rule self_loop_diverges [where sz = 3176 and n = "0x20"]) (simp_all add: o off)
  then show ?thesis
    using o off by (simp add: mm_malloc_A_def lazy_init_A_def asize_A_def DSIZE_def find_fit_A_def)
qed

text \<open>
  C7 at the failing input: \<^verbatim>\<open>mm_init(); p = mm_malloc(16); mm_free(p); mm_malloc(16);
  mm_malloc(5000)\<close> in variant A on the fresh machine.  The first four calls return; the last
  one does not return at all, neither null nor a payload, although the request is not 0 and
  the substrate is not even asked: the free list consists of one block of 3176 bytes whose
  \<^verbatim>\<open>next\<close> offset is its own offset, and \<^verbatim>\<open>find_fit\<close> walks it forever.
\<close>

theorem malloc_never_returns:
  "hang_prefix_A \<noteq> None \<and> hang_prefix_A \<bind> (\<lambda>s. Some (mm_malloc_A 5000 s)) = Some None"
proof (cases hang_prefix_A)
  case None
  with hang_obs show ?thesis by simp
next
  case (Some s)
  show ?thesis by (simp add: Some malloc_A_hangs [OF Some])
qed


section \<open>The initial layout (C8)\<close>

lemma upt_24: "[0..<24::nat] = [0,1,2,3,4,5,6,7,8,9,10,11,12,13,14,15,16,17,18,19,20,21,22,23]"
  by code_simp

lemma new_word_in_heap:
  fixes b :: addr
  assumes "mem_start_brk t \<le> b" "unat b + N \<le> unat (mem_max_addr t)" "k + 4 \<le> N"
  shows "in_heap t (b + of_nat k) 4"
proof -
  have m: "unat (mem_max_addr t) < 2 ^ 64"
    using unsigned_less [of "mem_max_addr t", where 'a = nat] by simp
  have u: "unat (b + of_nat j) = unat b + j" if "j \<le> N" for j
    using that assms(2) m by (intro unat_plus_small) simp
  have "b + of_nat k + 3 = b + of_nat (k + 3)" by simp
  with u [of "k + 3"] assms(3) have u3: "unat (b + of_nat k + 3) = unat b + (k + 3)"
    by (simp add: add.assoc)
  show ?thesis
    using assms u [of k] u3
    by (simp add: in_heap_def word_le_nat_alt word_less_nat_alt del: of_nat_add)
qed

lemma not_minus_one:
  fixes b m :: addr
  assumes "unat b + N \<le> unat m" "0 < N"
  shows "b \<noteq> - 1"
proof
  assume "b = - 1"
  then have "unat b = 2 ^ 64 - 1" by (simp add: unsigned_minus_1_eq_mask mask_eq_exp_minus_1)
  moreover have "unat m < 2 ^ 64" using unsigned_less [of m, where 'a = nat] by simp
  ultimately show False using assms by simp
qed

lemma layout_A:
  assumes lo: "mem_start_brk s \<le> mem_brk s"
      and room: "unat (mem_brk s) + 24 \<le> unat (mem_max_addr s)"
  shows "mm_init_layout_A s \<bind> (\<lambda>(r, t). Some (r, mem_brk t, free_listp t, heap_listp t,
            GET t (mem_brk s), GET t (mem_brk s + 4), GET t (mem_brk s + 8),
            GET_SIZE t (mem_brk s + 12), GET_ALLOC t (mem_brk s + 12),
            GET_SIZE t (mem_brk s + 16), GET_ALLOC t (mem_brk s + 16),
            GET_SIZE t (mem_brk s + 20), GET_ALLOC t (mem_brk s + 20)))
         = Some (0, mem_brk s + 24, mem_brk s + 4, mem_brk s + 16,
            Some 0, Some 0, Some (load32 (mem s) (mem_brk s + 8)),
            Some 8, Some 1, Some 8, Some 1, Some 0, Some 1)"
proof -
  let ?b = "mem_brk s"
  have V: "in_heap t (?b + of_nat k) 4"
    if "mem_start_brk t = mem_start_brk s" "mem_max_addr t = mem_max_addr s" "k + 4 \<le> 24" for t k
    using new_word_in_heap [of t ?b 24 k] that lo room by simp
  have V0: "in_heap t ?b 4"
    if "mem_start_brk t = mem_start_brk s" "mem_max_addr t = mem_max_addr s" for t
    using V [of t 0] that by simp
  have Vn: "in_heap t (?b + numeral w) 4"
    if "mem_start_brk t = mem_start_brk s" "mem_max_addr t = mem_max_addr s"
      "numeral w + 4 \<le> (24 :: nat)" for t w
    using V [of t "numeral w"] that by simp
  have n1: "?b \<noteq> - 1" using room by (rule not_minus_one) simp
  show ?thesis
    by (simp add: mm_init_layout_A_def mem_sbrk_def room n1 PUT_def GET_def V0 Vn
        WSIZE_def DSIZE_def PACK_def GET_SIZE_def GET_ALLOC_def
        load32_store32_same load32_store32_other cong: bind_weak_cong)
qed


lemma layout_B:
  assumes lo: "mem_start_brk s \<le> mem_brk s"
      and room: "unat (mem_brk s) + 112 \<le> unat (mem_max_addr s)"
  shows "mm_init_layout_B s \<bind> (\<lambda>(r, t). Some (r, mem_brk t, free_listp t, heap_listp t,
            GET t (mem_brk s),
            list_all (\<lambda>i. GET t (free_listp t + 4 * of_nat i) = Some 0) [0..<LIST_NUM],
            GET_SIZE t (mem_brk s + 100), GET_ALLOC t (mem_brk s + 100),
            GET_SIZE t (mem_brk s + 104), GET_ALLOC t (mem_brk s + 104),
            GET_SIZE t (mem_brk s + 108), GET_ALLOC t (mem_brk s + 108)))
         = Some (0, mem_brk s + 112, mem_brk s + 4, mem_brk s + 104,
            Some 0, True, Some 8, Some 1, Some 8, Some 1, Some 0, Some 1)"
proof -
  let ?b = "mem_brk s"
  have V: "in_heap t (?b + of_nat k) 4"
    if "mem_start_brk t = mem_start_brk s" "mem_max_addr t = mem_max_addr s" "k + 4 \<le> 112" for t k
    using new_word_in_heap [of t ?b 112 k] that lo room by simp
  have V0: "in_heap t ?b 4"
    if "mem_start_brk t = mem_start_brk s" "mem_max_addr t = mem_max_addr s" for t
    using V [of t 0] that by simp
  have Vn: "in_heap t (?b + numeral w) 4"
    if "mem_start_brk t = mem_start_brk s" "mem_max_addr t = mem_max_addr s"
      "numeral w + 4 \<le> (112 :: nat)" for t w
    using V [of t "numeral w"] that by simp
  have Vc: "in_heap t (numeral w + ?b) 4"
    if "mem_start_brk t = mem_start_brk s" "mem_max_addr t = mem_max_addr s"
      "numeral w + 4 \<le> (112 :: nat)" for t w
    using Vn [OF that] by (simp add: add.commute)
  have comm: "numeral w + ?b = ?b + numeral w" for w by (simp add: add.commute)
  have n1: "?b \<noteq> - 1" using room by (rule not_minus_one) simp
  show ?thesis
    by (simp add: mm_init_layout_B_def mem_sbrk_def room n1 PUT_def GET_def V0 Vn Vc Let_def comm
        WSIZE_def DSIZE_def PACK_def GET_SIZE_def GET_ALLOC_def LIST_NUM_def upt_24
        PREV_ALLOC_def NEXT_BLKP_def HDRP_def init_free_list.simps
        load32_store32_same load32_store32_other cong: bind_weak_cong)
qed

text \<open>
  C8, as stated, at \<^verbatim>\<open>mm_init()\<close> of variant A on the fresh machine: the claim's
  \<open>4*WSIZE + heads*WSIZE\<close> with one head is 20 bytes, the code requests \<^verbatim>\<open>6*WSIZE\<close> and the
  heap grows by 24 bytes.
\<close>

theorem init_A_requests_24:
  "4 * WSIZE + 1 * WSIZE = 20 \<and>
   map_option (mem_brk \<circ> snd) (mm_init_layout_A heap0) = Some (mem_brk heap0 + 24)"
  by (simp add: heap0_def run_A cong: bind_weak_cong)

text \<open>
  C8, amended.  On every substrate that grants the request, the layout part of \<^verbatim>\<open>mm_init\<close>
  succeeds and, with \<open>b\<close> the old end of the heap:
  variant A takes \<^verbatim>\<open>6*WSIZE\<close> = 24 bytes, writes 0 to the padding word at \<open>b\<close> and to the
  one list head at \<open>b + 4\<close>, writes the prologue header and footer (size 8, allocated)
  at \<open>b + 12\<close> and \<open>b + 16\<close> and the epilogue (size 0, allocated) at \<open>b + 20\<close>; the word
  at \<open>b + 8\<close> is not written: it holds afterwards what the memory held there before.
  Variant B takes \<^verbatim>\<open>4*WSIZE + 24*WSIZE\<close> = 112 bytes, writes 0 to the padding word and to each
  of the 24 list heads, the prologue at \<open>b + 100\<close> and \<open>b + 104\<close> and the epilogue at
  \<open>b + 108\<close>.
\<close>

theorem init_layout:
  "(mem_start_brk s \<le> mem_brk s \<and> unat (mem_brk s) + 24 \<le> unat (mem_max_addr s) \<longrightarrow>
      mm_init_layout_A s \<bind> (\<lambda>(r, t). Some (r, mem_brk t, free_listp t, heap_listp t,
            GET t (mem_brk s), GET t (mem_brk s + 4), GET t (mem_brk s + 8),
            GET_SIZE t (mem_brk s + 12), GET_ALLOC t (mem_brk s + 12),
            GET_SIZE t (mem_brk s + 16), GET_ALLOC t (mem_brk s + 16),
            GET_SIZE t (mem_brk s + 20), GET_ALLOC t (mem_brk s + 20)))
         = Some (0, mem_brk s + 24, mem_brk s + 4, mem_brk s + 16,
            Some 0, Some 0, Some (load32 (mem s) (mem_brk s + 8)),
            Some 8, Some 1, Some 8, Some 1, Some 0, Some 1)) \<and>
   (mem_start_brk s \<le> mem_brk s \<and> unat (mem_brk s) + 112 \<le> unat (mem_max_addr s) \<longrightarrow>
      mm_init_layout_B s \<bind> (\<lambda>(r, t). Some (r, mem_brk t, free_listp t, heap_listp t,
            GET t (mem_brk s),
            list_all (\<lambda>i. GET t (free_listp t + 4 * of_nat i) = Some 0) [0..<LIST_NUM],
            GET_SIZE t (mem_brk s + 100), GET_ALLOC t (mem_brk s + 100),
            GET_SIZE t (mem_brk s + 104), GET_ALLOC t (mem_brk s + 104),
            GET_SIZE t (mem_brk s + 108), GET_ALLOC t (mem_brk s + 108)))
         = Some (0, mem_brk s + 112, mem_brk s + 4, mem_brk s + 104,
            Some 0, True, Some 8, Some 1, Some 8, Some 1, Some 0, Some 1))"
  using layout_A [of s] layout_B [of s] by blast

theorem init_layout_witness:
  "mem_start_brk heapD \<le> mem_brk heapD \<and>
   unat (mem_brk heapD) + 24 \<le> unat (mem_max_addr heapD) \<and>
   unat (mem_brk heapD) + 112 \<le> unat (mem_max_addr heapD) \<and>
   load32 (mem heapD) (mem_brk heapD + 8) = 0xDEADBEEF \<and>
   mm_init_layout_A heapD \<bind> (\<lambda>(r, t). Some (r, mem_brk t, free_listp t, heap_listp t,
            GET t (mem_brk heapD), GET t (mem_brk heapD + 4), GET t (mem_brk heapD + 8),
            GET_SIZE t (mem_brk heapD + 12), GET_ALLOC t (mem_brk heapD + 12),
            GET_SIZE t (mem_brk heapD + 16), GET_ALLOC t (mem_brk heapD + 16),
            GET_SIZE t (mem_brk heapD + 20), GET_ALLOC t (mem_brk heapD + 20)))
         = Some (0, 0x1018, 0x1004, 0x1010,
            Some 0, Some 0, Some 0xDEADBEEF, Some 8, Some 1, Some 8, Some 1, Some 0, Some 1) \<and>
   mm_init_layout_B heapD \<bind> (\<lambda>(r, t). Some (r, mem_brk t, free_listp t, heap_listp t,
            GET t (mem_brk heapD),
            list_all (\<lambda>i. GET t (free_listp t + 4 * of_nat i) = Some 0) [0..<LIST_NUM],
            GET_SIZE t (mem_brk heapD + 100), GET_ALLOC t (mem_brk heapD + 100),
            GET_SIZE t (mem_brk heapD + 104), GET_ALLOC t (mem_brk heapD + 104),
            GET_SIZE t (mem_brk heapD + 108), GET_ALLOC t (mem_brk heapD + 108)))
         = Some (0, 0x1070, 0x1004, 0x1068,
            Some 0, True, Some 8, Some 1, Some 8, Some 1, Some 0, Some 1)"
proof -
  have h: "mem_start_brk heapD = 0x1000" "mem_brk heapD = 0x1000" "mem_max_addr heapD = 0x101000"
    "load32 (mem heapD) 0x1008 = 0xDEADBEEF"
    by (simp_all add: heapD_def heap0_def load32_store32_same)
  show ?thesis using init_layout [of heapD] by (simp add: h)
qed

end
